theory Spec2Isabelle
  imports Complex_Main "HOL-Library.Word" "HOL-Library.List_Lexorder" "HOL-Library.Char_ord"
    "HOL-Library.Sublist"
begin

unbundle bit_operations_syntax

section \<open>Hash primitives (core/hash.ts)\<close>

subsection \<open>Nix32 encoding\<close>

text \<open>
  A \<open>Buffer\<close> is a list of bytes. Reading a buffer or a string past its end gives
  \<open>undefined\<close> in JavaScript; the bit operators turn \<open>undefined\<close> into 0, and
  \<open>Array.prototype.join\<close> prints it as the empty string. Both reads are therefore
  written with their out-of-range case.
\<close>

definition NIX32_ALPHABET :: string where
  "NIX32_ALPHABET = ''0123456789abcdfghijklmnpqrsvwxyz''"

definition byteAt :: "8 word list \<Rightarrow> nat \<Rightarrow> 32 word" where
  "byteAt buf i = (if i < length buf then ucast (buf ! i) else 0)"

definition charAt :: "string \<Rightarrow> nat \<Rightarrow> char option" where
  "charAt s i = (if i < length s then Some (s ! i) else None)"

text \<open>The body of the loop of \<open>nix32Encode\<close>: the 5-bit group number \<open>n\<close>.\<close>

definition nix32Group :: "8 word list \<Rightarrow> nat \<Rightarrow> 32 word" where
  "nix32Group reversed n =
     (let b = n * 5;
          i = b div 8;
          j = b mod 8;
          c = drop_bit j (byteAt reversed i) AND 0x1f
      in if i + 1 < length reversed \<and> j > 3
         then c OR (push_bit (8 - j) (byteAt reversed (i + 1)) AND 0x1f)
         else c)"

definition joinChars :: "char option list \<Rightarrow> string" where
  "joinChars chars = concat (map (\<lambda>c. case c of None \<Rightarrow> [] | Some x \<Rightarrow> [x]) chars)"

definition nix32Encode :: "8 word list \<Rightarrow> string" where
  "nix32Encode bytes =
     (if length bytes = 0 then []
      else
        let reversed = rev bytes;
            len = (length reversed * 8 + 4) div 5;
            chars = fold (\<lambda>n chars.
                       chars[len - 1 - n := charAt NIX32_ALPHABET (unat (nix32Group reversed n))])
                     [0..<len] (replicate len None)
        in joinChars chars)"


subsection \<open>SHA-256 (node:crypto)\<close>

text \<open>
  \<open>createHash("sha256")\<close> is the standard SHA-256 of FIPS 180-4. A 32-bit word is an
  \<open>int\<close> below \<open>2 ^ 32\<close>, with the wrap-around of every addition written out; a rotation
  by \<open>k\<close> bits is given by its divisor \<open>2 ^ k\<close>. The round constants and the initial
  state are the standard's, in decimal.
\<close>

definition K256 :: "int list" where
  "K256 = [1116352408, 1899447441, 3049323471, 3921009573, 961987163, 1508970993, 2453635748,
    2870763221, 3624381080, 310598401, 607225278, 1426881987, 1925078388, 2162078206,
    2614888103, 3248222580, 3835390401, 4022224774, 264347078, 604807628, 770255983,
    1249150122, 1555081692, 1996064986, 2554220882, 2821834349, 2952996808, 3210313671,
    3336571891, 3584528711, 113926993, 338241895, 666307205, 773529912, 1294757372,
    1396182291, 1695183700, 1986661051, 2177026350, 2456956037, 2730485921, 2820302411,
    3259730800, 3345764771, 3516065817, 3600352804, 4094571909, 275423344, 430227734,
    506948616, 659060556, 883997877, 958139571, 1322822218, 1537002063, 1747873779,
    1955562222, 2024104815, 2227730452, 2361852424, 2428436474, 2756734187, 3204031479,
    3329325298]"

definition H256 :: "int list" where
  "H256 = [1779033703, 3144134277, 1013904242, 2773480762,
           1359893119, 2600822924, 528734635, 1541459225]"

definition add32 :: "int \<Rightarrow> int \<Rightarrow> int" where
  "add32 x y = (x + y) mod 4294967296"

definition rotr :: "int \<Rightarrow> int \<Rightarrow> int" where
  "rotr p x = x div p + (x mod p) * (4294967296 div p)"

definition ssig0 :: "int \<Rightarrow> int" where
  "ssig0 x = rotr 128 x XOR rotr 262144 x XOR x div 8"

definition ssig1 :: "int \<Rightarrow> int" where
  "ssig1 x = rotr 131072 x XOR rotr 524288 x XOR x div 1024"

definition bsig0 :: "int \<Rightarrow> int" where
  "bsig0 x = rotr 4 x XOR rotr 8192 x XOR rotr 4194304 x"

definition bsig1 :: "int \<Rightarrow> int" where
  "bsig1 x = rotr 64 x XOR rotr 2048 x XOR rotr 33554432 x"

definition ch :: "int \<Rightarrow> int \<Rightarrow> int \<Rightarrow> int" where
  "ch x y z = ((y XOR z) AND x) XOR z"

definition maj :: "int \<Rightarrow> int \<Rightarrow> int \<Rightarrow> int" where
  "maj x y z = (x AND y) XOR (x AND z) XOR (y AND z)"

text \<open>The message schedule, over a sliding window of sixteen words.\<close>

fun expand :: "nat \<Rightarrow> int list \<Rightarrow> int list" where
  "expand 0 win = []"
| "expand (Suc k) win =
     hd win # expand k (tl win @
       [add32 (add32 (hd win) (ssig0 (win ! 1))) (add32 (win ! 9) (ssig1 (win ! 14)))])"

fun rnd :: "int list \<Rightarrow> int \<times> int \<Rightarrow> int list" where
  "rnd [a, b, c, d, e, f, g, h] (k, w) =
     (let t1 = add32 (add32 (add32 h (bsig1 e)) (add32 (ch e f g) k)) w;
          t2 = add32 (bsig0 a) (maj a b c)
      in [add32 t1 t2, a, b, c, add32 d t1, e, f, g])"
| "rnd s _ = s"

fun be32 :: "int list \<Rightarrow> int list" where
  "be32 (a # b # c # d # rest) = (((a * 256 + b) * 256 + c) * 256 + d) # be32 rest"
| "be32 _ = []"

definition compress :: "int list \<Rightarrow> int list \<Rightarrow> int list" where
  "compress hs block = map2 add32 hs (foldl rnd hs (zip K256 (expand 64 block)))"

fun blocks :: "nat \<Rightarrow> int list \<Rightarrow> int list \<Rightarrow> int list" where
  "blocks 0 hs ws = hs"
| "blocks (Suc n) hs ws = blocks n (compress hs (take 16 ws)) (drop 16 ws)"

definition pad :: "int list \<Rightarrow> int list" where
  "pad msg = msg @ [128] @ replicate ((119 - length msg mod 64) mod 64) 0 @
      map (\<lambda>i. (int (8 * length msg) div 256 ^ (7 - i)) mod 256) [0..<8]"

definition sha256 :: "8 word list \<Rightarrow> 8 word list" where
  "sha256 data =
     (let ws = be32 (pad (map uint data))
      in concat (map (\<lambda>w. map word_of_int
                    [w div 16777216, (w div 65536) mod 256, (w div 256) mod 256, w mod 256])
           (blocks (length ws div 16) H256 ws)))"

text \<open>
  A JavaScript string is a list of UTF-16 code units; the model keeps the code units below
  \<open>0x100\<close>, one \<open>char\<close> each. Hashing a string hashes its UTF-8 encoding, in which a
  code unit from \<open>0x80\<close> on takes two bytes.
\<close>

definition utf8 :: "string \<Rightarrow> 8 word list" where
  "utf8 s = concat (map (\<lambda>c. let n = (of_char c :: nat) in
       if n < 128 then [of_nat n] else [of_nat (192 + n div 64), of_nat (128 + n mod 64)]) s)"

definition hexDigit :: "nat \<Rightarrow> char" where
  "hexDigit n = ''0123456789abcdef'' ! (n mod 16)"

definition toHex :: "8 word list \<Rightarrow> string" where
  "toHex buf = concat (map (\<lambda>b. [hexDigit (unat b div 16), hexDigit (unat b mod 16)]) buf)"

definition sha256Hex :: "8 word list \<Rightarrow> string" where
  "sha256Hex data = toHex (sha256 data)"

text \<open>\<open>sha256Truncated\<close>: the first 20 bytes of the digest, Nix32 encoded.\<close>

definition sha256Truncated :: "8 word list \<Rightarrow> string" where
  "sha256Truncated data =
     (let fullHash = sha256 data;
          truncated = take 20 fullHash
      in nix32Encode truncated)"

subsection \<open>JavaScript objects and JSON values\<close>

text \<open>
  A plain object is the list of its own properties in the order in which
  \<open>Object.keys\<close> and \<open>JSON.stringify\<close> enumerate them: first the keys that are array
  indices (canonical decimal numerals below \<open>2 ^ 32 - 1\<close>), in ascending numeric order,
  then every other key in the order of its first assignment.
\<close>

datatype json =
    JUndefined
  | JNull
  | JBool bool
  | JNum int
  | JStr string
  | JArr "json list"
  | JObj "(string \<times> json) list"

definition isDigit :: "char \<Rightarrow> bool" where
  "isDigit c \<longleftrightarrow> 48 \<le> (of_char c :: nat) \<and> (of_char c :: nat) \<le> 57"

definition decimalValue :: "string \<Rightarrow> int" where
  "decimalValue k = foldl (\<lambda>a c. 10 * a + (of_char c - 48)) 0 k"

definition isArrayIndex :: "string \<Rightarrow> bool" where
  "isArrayIndex k \<longleftrightarrow>
     k \<noteq> [] \<and> list_all isDigit k \<and> (hd k \<noteq> CHR ''0'' \<or> k = ''0'') \<and>
     decimalValue k < 4294967295"

text \<open>\<open>obj[key]\<close>: a missing property reads as \<open>undefined\<close>.\<close>

definition jsGet :: "(string \<times> json) list \<Rightarrow> string \<Rightarrow> json" where
  "jsGet obj key = (case map_of obj key of None \<Rightarrow> JUndefined | Some v \<Rightarrow> v)"

text \<open>
  \<open>CreateDataProperty\<close>: an existing property keeps its place and takes the new value; a
  new array index goes to its numeric place, any other new key to the end.
\<close>

definition jsDefine :: "string \<Rightarrow> 'v \<Rightarrow> (string \<times> 'v) list \<Rightarrow> (string \<times> 'v) list" where
  "jsDefine key v obj =
     (if key \<in> fst ` set obj then map (\<lambda>(k, w). if k = key then (k, v) else (k, w)) obj
      else if isArrayIndex key then
        takeWhile (\<lambda>(k, w). isArrayIndex k \<and> decimalValue k < decimalValue key) obj
          @ [(key, v)]
          @ dropWhile (\<lambda>(k, w). isArrayIndex k \<and> decimalValue k < decimalValue key) obj
      else obj @ [(key, v)])"

text \<open>
  \<open>obj[key] = v\<close> on an object created by \<open>{}\<close>. Assigning to \<open>__proto__\<close> runs the
  setter inherited from \<open>Object.prototype\<close> and creates no property.
\<close>

definition jsSet :: "string \<Rightarrow> 'v \<Rightarrow> (string \<times> 'v) list \<Rightarrow> (string \<times> 'v) list" where
  "jsSet key v obj = (if key = ''__proto__'' then obj else jsDefine key v obj)"

subsection \<open>Deterministic JSON (stableStringify)\<close>

text \<open>
  The replacer of \<open>stableStringify\<close> on a plain object: the keys are sorted by
  \<open>Array.prototype.sort\<close> (code-unit order) and assigned one by one to a fresh object.
\<close>

definition sortedCopy :: "(string \<times> json) list \<Rightarrow> (string \<times> json) list" where
  "sortedCopy value =
     foldl (\<lambda>sorted key. jsSet key (jsGet value key) sorted) [] (sort (map fst value))"

definition hex4 :: "nat \<Rightarrow> string" where
  "hex4 n = [hexDigit (n div 4096), hexDigit (n div 256), hexDigit (n div 16), hexDigit n]"

text \<open>\<open>QuoteJSONString\<close> on one code unit, and on a string.\<close>

definition quoteChar :: "char \<Rightarrow> string" where
  "quoteChar c =
     (let n = (of_char c :: nat) in
      if n = 8 then [CHR 0x5C, CHR ''b'']
      else if n = 9 then [CHR 0x5C, CHR ''t'']
      else if n = 10 then [CHR 0x5C, CHR ''n'']
      else if n = 12 then [CHR 0x5C, CHR ''f'']
      else if n = 13 then [CHR 0x5C, CHR ''r'']
      else if n = 34 then [CHR 0x5C, CHR 0x22]
      else if n = 92 then [CHR 0x5C, CHR 0x5C]
      else if n < 32 then [CHR 0x5C, CHR ''u''] @ hex4 n
      else [c])"

definition quoteJSON :: "string \<Rightarrow> string" where
  "quoteJSON s = [CHR 0x22] @ concat (map quoteChar s) @ [CHR 0x22]"

fun joinWith :: "string \<Rightarrow> string list \<Rightarrow> string" where
  "joinWith sep [] = []"
| "joinWith sep [x] = x"
| "joinWith sep (x # y # ys) = x @ sep @ joinWith sep (y # ys)"

function showNat :: "nat \<Rightarrow> string" where
  "showNat n = (if n < 10 then [hexDigit n] else showNat (n div 10) @ [hexDigit (n mod 10)])"
  by pat_completeness auto
termination
  by (relation "measure id") auto

text \<open>Numbers are kept to the integers, which print in decimal.\<close>

definition showInt :: "int \<Rightarrow> string" where
  "showInt i = (if i < 0 then CHR ''-'' # showNat (nat (- i)) else showNat (nat i))"

text \<open>
  \<open>SerializeJSONProperty\<close> under the replacer: the value is replaced first, then
  printed; \<open>None\<close> is JavaScript's \<open>undefined\<close>, which drops the member of an object and
  prints as \<open>null\<close> in an array.
\<close>

function serializeProperty :: "json \<Rightarrow> string option" where
  "serializeProperty JUndefined = None"
| "serializeProperty JNull = Some ''null''"
| "serializeProperty (JBool b) = Some (if b then ''true'' else ''false'')"
| "serializeProperty (JNum i) = Some (showInt i)"
| "serializeProperty (JStr s) = Some (quoteJSON s)"
| "serializeProperty (JArr xs) =
     Some (''['' @ joinWith '','' (map (\<lambda>v. case serializeProperty v of
                                             None \<Rightarrow> ''null'' | Some s \<Rightarrow> s) xs) @ '']'')"
| "serializeProperty (JObj value) =
     Some (''{'' @ joinWith '',''
        (concat (map (\<lambda>(k, v). case serializeProperty v of
                                  None \<Rightarrow> [] | Some s \<Rightarrow> [quoteJSON k @ '':'' @ s])
                  (sortedCopy value))) @ ''}'')"
  by pat_completeness auto
termination
proof (relation "measure size")
  show "wf (measure (size :: json \<Rightarrow> nat))" by simp
next
  fix xs :: "json list" and v
  assume "v \<in> set xs"
  then have "size v < Suc (size_list size xs)"
    by (induction xs) auto
  then show "(v, JArr xs) \<in> measure size" by simp
next
  fix "value" :: "(string \<times> json) list" and kv k v
  assume kv: "kv \<in> set (sortedCopy value)" and eq: "(k, v) = kv"
  have setj: "set (jsSet key w obj) \<subseteq> insert (key, w) (set obj)" for key w obj
    by (auto simp: jsSet_def jsDefine_def dest: set_takeWhileD set_dropWhileD split: if_splits)
  have fold: "set (foldl (\<lambda>sorted key. jsSet key (jsGet value key) sorted) acc ks)
        \<subseteq> set acc \<union> {(key, jsGet value key) | key. key \<in> set ks}" for acc ks
  proof (induction ks arbitrary: acc)
    case Nil
    then show ?case by simp
  next
    case (Cons a ks)
    show ?case using Cons.IH[of "jsSet a (jsGet value a) acc"] setj[of a "jsGet value a" acc]
      by auto
  qed
  have "kv \<in> {(key, jsGet value key) | key. key \<in> fst ` set value}"
    using kv fold[of "[]" "sort (map fst value)"] by (auto simp: sortedCopy_def)
  then obtain key where key: "key \<in> fst ` set value" and kveq: "kv = (key, jsGet value key)"
    by blast
  from key obtain w where w: "map_of value key = Some w"
    by (cases "map_of value key") (auto simp: map_of_eq_None_iff)
  have "(k, v) \<in> set value"
    using eq kveq w map_of_SomeD[OF w] by (simp add: jsGet_def)
  then have "size v < Suc (size_list (size_prod (\<lambda>_. 0) size) value)"
    by (induction "value") auto
  then show "(v, JObj value) \<in> measure size" by simp
qed

definition stableStringify :: "json \<Rightarrow> string option" where
  "stableStringify obj = serializeProperty obj"

subsection \<open>Store path computation\<close>

datatype hashMode = Flat | Recursive

definition computeStorePath :: "string \<Rightarrow> string \<Rightarrow> string \<Rightarrow> string \<Rightarrow> string" where
  "computeStorePath typ innerDigest storeDir name =
     (let fingerprint = typ @ '':sha256:'' @ innerDigest @ '':'' @ storeDir @ '':'' @ name;
          digest = sha256Truncated (utf8 fingerprint)
      in storeDir @ ''/'' @ digest @ ''-'' @ name)"

definition computeOutputPath :: "string \<Rightarrow> string \<Rightarrow> string \<Rightarrow> string" where
  "computeOutputPath drvHashHex storeDir name =
     computeStorePath ''output:out'' drvHashHex storeDir name"

definition computeSourcePath :: "string \<Rightarrow> string \<Rightarrow> string \<Rightarrow> string" where
  "computeSourcePath contentHash storeDir name =
     computeStorePath ''source'' contentHash storeDir name"

definition computeFixedOutputPath :: "string \<Rightarrow> hashMode \<Rightarrow> string \<Rightarrow> string \<Rightarrow> string" where
  "computeFixedOutputPath contentHash hashMode storeDir name =
     (let modePrefix = (if hashMode = Recursive then ''r:'' else '''');
          innerFingerprint = ''fixed:out:'' @ modePrefix @ ''sha256:'' @ contentHash @ '':'';
          innerDigest = sha256Hex (utf8 innerFingerprint)
      in computeStorePath ''output:out'' innerDigest storeDir name)"

section \<open>Core types (core/types.ts)\<close>

datatype system = X86_64_linux | Aarch64_linux | X86_64_darwin | Aarch64_darwin

fun systemString :: "system \<Rightarrow> string" where
  "systemString X86_64_linux = ''x86_64-linux''"
| "systemString Aarch64_linux = ''aarch64-linux''"
| "systemString X86_64_darwin = ''x86_64-darwin''"
| "systemString Aarch64_darwin = ''aarch64-darwin''"

text \<open>
  The host: the two fields of Node's \<open>process\<close> object that \<open>currentSystem\<close> reads, and
  the directory \<open>os.tmpdir()\<close> returns.
\<close>

record process =
  arch :: string
  platform :: string
  tmpdir :: string

definition currentSystem :: "process \<Rightarrow> system" where
  "currentSystem proc =
     (if arch proc = ''arm64''
      then (if platform proc = ''darwin'' then Aarch64_darwin else Aarch64_linux)
      else (if platform proc = ''darwin'' then X86_64_darwin else X86_64_linux))"

datatype source =
    PathSource (path: string)
  | FixedSource (url: string) (hash: string) (hashAlgo: string)

text \<open>
  The user-facing derivation. An optional field is an \<open>option\<close>; \<open>env\<close> is a plain
  object from strings to strings. Derivations are compared by value: the source's maps
  are keyed by object identity and rely on derivations not being mutated, under which
  two references to one derivation and two equal derivations hash alike.
\<close>

datatype derivation = Derivation
  (name: string)
  (system: "system option")
  (builder: string)
  (args: "string list option")
  (env: "(string \<times> string) list option")
  (inputs: "derivation list option")
  (src: "source option")
  (outputHash: "string option")
  (outputHashAlgo: "string option")
  (outputHashMode: "hashMode option")

text \<open>The stored form; \<open>outPath\<close> is \<open>outputs.out.path\<close>.\<close>

record drvFile =
  outPath :: string
  inputDrvs :: "(string \<times> string list) list"
  inputSrcs :: "string list"
  drvSystem :: system
  drvBuilder :: string
  drvArgs :: "string list"
  drvEnv :: "(string \<times> string) list"

text \<open>JavaScript truthiness of an optional string: present and not empty.\<close>

definition truthy :: "string option \<Rightarrow> bool" where
  "truthy s = (case s of None \<Rightarrow> False | Some x \<Rightarrow> x \<noteq> [])"

definition orEmpty :: "'a list option \<Rightarrow> 'a list" where
  "orEmpty xs = (case xs of None \<Rightarrow> [] | Some ys \<Rightarrow> ys)"

section \<open>Derivation hashing (core/derivation.ts)\<close>

type_synonym hashCache = "derivation \<rightharpoonup> string"

definition fixedFingerprint :: "string \<Rightarrow> hashMode option \<Rightarrow> string" where
  "fixedFingerprint outHash modeOpt =
     (let mode = (case modeOpt of None \<Rightarrow> Flat | Some m \<Rightarrow> m)
      in ''fixed:out:'' @ (if mode = Recursive then ''r:'' else '''') @ ''sha256:'' @ outHash @ '':'')"

text \<open>The record \<open>toHash\<close>, with the output path emptied.\<close>

definition toHash :: "process \<Rightarrow> derivation \<Rightarrow> (string \<times> json) list \<Rightarrow> json" where
  "toHash proc drv inputHashes = JObj
     [(''name'', JStr (name drv)),
      (''system'', JStr (systemString (case system drv of None \<Rightarrow> currentSystem proc | Some s \<Rightarrow> s))),
      (''builder'', JStr (builder drv)),
      (''args'', JArr (map JStr (orEmpty (args drv)))),
      (''env'', JObj (map (\<lambda>(k, v). (k, JStr v)) (orEmpty (env drv)))),
      (''inputs'', JObj inputHashes),
      (''outputs'', JObj [(''out'', JStr '''')]),
      (''src'', (case src drv of
                   None \<Rightarrow> JUndefined
                 | Some (PathSource p) \<Rightarrow> JStr p
                 | Some (FixedSource u h a) \<Rightarrow> JStr h))]"

text \<open>\<open>sha256Hex(stableStringify(toHash))\<close>; an object never serialises to \<open>undefined\<close>.\<close>

definition hashJson :: "json \<Rightarrow> string" where
  "hashJson v = sha256Hex (utf8 (case stableStringify v of None \<Rightarrow> [] | Some s \<Rightarrow> s))"

function hashDerivationModulo ::
    "process \<Rightarrow> derivation \<Rightarrow> string \<Rightarrow> hashCache \<Rightarrow> string \<times> hashCache"
  and hashInputs ::
    "process \<Rightarrow> derivation list \<Rightarrow> string \<Rightarrow> hashCache \<Rightarrow> (string \<times> json) list
       \<Rightarrow> (string \<times> json) list \<times> hashCache"
where
  "hashDerivationModulo proc (Derivation nm sy bl ar en ins sr oh oa om) storeDir cache =
     (let drv = Derivation nm sy bl ar en ins sr oh oa om;
          cached = cache drv
      in if truthy cached then (case cached of Some h \<Rightarrow> (h, cache) | None \<Rightarrow> ([], cache))
         else if truthy oh then
           (let innerFingerprint = fixedFingerprint (case oh of Some h \<Rightarrow> h | None \<Rightarrow> []) om;
                hash = sha256Hex (utf8 innerFingerprint)
            in (hash, cache(drv \<mapsto> hash)))
         else
           (let (inputHashes, cache1) = hashInputs proc (orEmpty ins) storeDir cache [];
                hash = hashJson (toHash proc drv inputHashes)
            in (hash, cache1(drv \<mapsto> hash))))"
| "hashInputs proc [] storeDir cache inputHashes = (inputHashes, cache)"
| "hashInputs proc (input # rest) storeDir cache inputHashes =
     (let (inputHash, cache1) = hashDerivationModulo proc input storeDir cache
      in hashInputs proc rest storeDir cache1 (jsSet inputHash (JArr [JStr ''out'']) inputHashes))"
  by pat_completeness auto
termination
  by (relation "measure (\<lambda>x. case x of
          Inl (proc, drv, storeDir, cache) \<Rightarrow> size drv
        | Inr (proc, ins, storeDir, cache, obj) \<Rightarrow> size_list size ins)")
     (auto simp: orEmpty_def split: option.splits)

text \<open>
  The value \<open>hashDerivationModulo\<close> computes when nothing is cached: the same recursion
  without the memo table.
\<close>

function drvHash :: "process \<Rightarrow> derivation \<Rightarrow> string" where
  "drvHash proc (Derivation nm sy bl ar en ins sr oh oa om) =
     (if truthy oh then sha256Hex (utf8 (fixedFingerprint (case oh of Some h \<Rightarrow> h | None \<Rightarrow> []) om))
      else hashJson (toHash proc (Derivation nm sy bl ar en ins sr oh oa om)
             (foldl (\<lambda>obj h. jsSet h (JArr [JStr ''out'']) obj) []
                (map (drvHash proc) (orEmpty ins)))))"
  by pat_completeness auto
termination
proof (relation "measure (\<lambda>(proc, drv). size drv)")
  show "wf (measure (\<lambda>(proc :: process, drv :: derivation). size drv))" by simp
next
  fix proc :: process and nm sy bl ar en and ins :: "derivation list option" and sr oh oa om x
  assume "x \<in> set (orEmpty ins)"
  then have "size x < Suc (size_option (size_list size) ins)"
  proof (cases ins)
    case None
    then show ?thesis using \<open>x \<in> set (orEmpty ins)\<close> by (simp add: orEmpty_def)
  next
    case (Some xs)
    then have "x \<in> set xs" using \<open>x \<in> set (orEmpty ins)\<close> by (simp add: orEmpty_def)
    then have "size x < Suc (size_list size xs)" by (induction xs) auto
    then show ?thesis using Some by simp
  qed
  then show "((proc, x), (proc, Derivation nm sy bl ar en ins sr oh oa om))
      \<in> measure (\<lambda>(proc, drv). size drv)" by simp
qed

text \<open>A memo table is sound when every non-empty entry is the hash of its key.\<close>

definition cacheSound :: "process \<Rightarrow> hashCache \<Rightarrow> bool" where
  "cacheSound proc cache \<longleftrightarrow> (\<forall>d h. cache d = Some h \<and> h \<noteq> [] \<longrightarrow> h = drvHash proc d)"

section \<open>The store (core/store.ts)\<close>

subsection \<open>Errors\<close>

text \<open>
  The failures of the core, by the taxonomy of the specification. The source throws
  \<open>Error\<close> objects that differ by their message, and Node's file-system errors; the
  message or the offending path is kept.
\<close>

datatype error =
    ValidationError
  | IoError string
  | SyntaxError string
  | CycleError string
  | BuildFailedError string
  | MissingOutputError string

subsection \<open>The file system\<close>

text \<open>
  The file system maps an absolute path to a file (content and permission bits) or a
  directory (permission bits); the entries of a directory are the paths below it. The
  text of a \<open>.drv\<close> file is kept as the \<open>DrvFile\<close> it encodes: \<open>addDrv\<close> writes
  \<open>JSON.stringify(drv, null, 2)\<close> and \<open>readDrv\<close> parses it back. \<open>mkdtempSync\<close>
  appends characters chosen by the operating system, drawn here from a supply.
\<close>

datatype content = Bytes "8 word list" | DrvText drvFile

datatype fsnode = File content nat | Dir nat

record world =
  files :: "string \<rightharpoonup> fsnode"
  tmpSuffix :: "nat \<Rightarrow> string"
  tmpDrawn :: nat

definition under :: "string \<Rightarrow> string \<Rightarrow> bool" where
  "under p q \<longleftrightarrow> q = p \<or> prefix (p @ ''/'') q"

definition existsSync :: "world \<Rightarrow> string \<Rightarrow> bool" where
  "existsSync w p \<longleftrightarrow> files w p \<noteq> None"

text \<open>\<open>rmSync(p, {recursive: true, force: true})\<close>.\<close>

definition rmSync :: "string \<Rightarrow> world \<Rightarrow> world" where
  "rmSync p w = w\<lparr>files := (\<lambda>q. if under p q then None else files w q)\<rparr>"

text \<open>\<open>renameSync(a, b)\<close> moves the entry at \<open>a\<close> and everything below it.\<close>

definition renameSync :: "string \<Rightarrow> string \<Rightarrow> world \<Rightarrow> (error + unit) \<times> world" where
  "renameSync a b w =
     (if files w a = None then (Inl (IoError a), w)
      else (Inr (), w\<lparr>files := (\<lambda>q.
              if under b q then files w (a @ drop (length b) q)
              else if under a q then None
              else files w q)\<rparr>))"

definition mkdirSync :: "string \<Rightarrow> nat \<Rightarrow> world \<Rightarrow> world" where
  "mkdirSync p mode w = (if files w p = None then w\<lparr>files := (files w)(p \<mapsto> Dir mode)\<rparr> else w)"

definition mkdtempSync :: "string \<Rightarrow> world \<Rightarrow> string \<times> world" where
  "mkdtempSync pfx w =
     (let d = pfx @ tmpSuffix w (tmpDrawn w)
      in (d, w\<lparr>files := (files w)(d \<mapsto> Dir 448), tmpDrawn := Suc (tmpDrawn w)\<rparr>))"

definition writeFileSync :: "string \<Rightarrow> content \<Rightarrow> world \<Rightarrow> world" where
  "writeFileSync p c w = w\<lparr>files := (files w)(p \<mapsto> File c 420)\<rparr>"

definition chmodSync :: "string \<Rightarrow> nat \<Rightarrow> world \<Rightarrow> world" where
  "chmodSync p mode w =
     w\<lparr>files := (files w)(p := map_option
         (\<lambda>n. case n of File c m \<Rightarrow> File c mode | Dir m \<Rightarrow> Dir mode) (files w p))\<rparr>"

subsection \<open>The text of a derivation file\<close>

definition eol :: string where
  "eol = [CHR 0x0A]"

function prettyProperty :: "string \<Rightarrow> json \<Rightarrow> string option" where
  "prettyProperty ind JUndefined = None"
| "prettyProperty ind JNull = Some ''null''"
| "prettyProperty ind (JBool b) = Some (if b then ''true'' else ''false'')"
| "prettyProperty ind (JNum i) = Some (showInt i)"
| "prettyProperty ind (JStr s) = Some (quoteJSON s)"
| "prettyProperty ind (JArr xs) =
     (let inner = ind @ ''  '';
          partial = map (\<lambda>v. case prettyProperty inner v of None \<Rightarrow> ''null'' | Some s \<Rightarrow> s) xs
      in if partial = [] then Some ''[]''
         else Some (''['' @ eol @ inner @ joinWith ('','' @ eol @ inner) partial @ eol @ ind @ '']''))"
| "prettyProperty ind (JObj kvs) =
     (let inner = ind @ ''  '';
          partial = concat (map (\<lambda>(k, v). case prettyProperty inner v of
                                    None \<Rightarrow> [] | Some s \<Rightarrow> [quoteJSON k @ '': '' @ s]) kvs)
      in if partial = [] then Some ''{}''
         else Some (''{'' @ eol @ inner @ joinWith ('','' @ eol @ inner) partial @ eol @ ind @ ''}''))"
  by pat_completeness auto
termination
proof (relation "measure (\<lambda>(ind, v). size v)")
  show "wf (measure (\<lambda>(ind :: string, v :: json). size v))" by simp
next
  fix ind inner :: string and xs :: "json list" and v
  assume "v \<in> set xs"
  then have "size v < Suc (size_list size xs)"
    by (induction xs) auto
  then show "((inner, v), (ind, JArr xs)) \<in> measure (\<lambda>(ind, v). size v)" by simp
next
  fix ind inner :: string and kvs :: "(string \<times> json) list" and kv k v
  assume "kv \<in> set kvs" "(k, v) = kv"
  then have "(k, v) \<in> set kvs" by simp
  then have "size v < Suc (size_list (size_prod (\<lambda>_. 0) size) kvs)"
    by (induction kvs) auto
  then show "((inner, v), (ind, JObj kvs)) \<in> measure (\<lambda>(ind, v). size v)" by simp
qed

definition drvFileJson :: "drvFile \<Rightarrow> json" where
  "drvFileJson d = JObj
     [(''outputs'', JObj [(''out'', JObj [(''path'', JStr (outPath d))])]),
      (''inputDrvs'', JObj (map (\<lambda>(k, v). (k, JArr (map JStr v))) (inputDrvs d))),
      (''inputSrcs'', JArr (map JStr (inputSrcs d))),
      (''system'', JStr (systemString (drvSystem d))),
      (''builder'', JStr (drvBuilder d)),
      (''args'', JArr (map JStr (drvArgs d))),
      (''env'', JObj (map (\<lambda>(k, v). (k, JStr v)) (drvEnv d)))]"

definition contentBytes :: "content \<Rightarrow> 8 word list" where
  "contentBytes c =
     (case c of
        Bytes b \<Rightarrow> b
      | DrvText d \<Rightarrow> utf8 (case prettyProperty [] (drvFileJson d) of None \<Rightarrow> [] | Some s \<Rightarrow> s))"

subsection \<open>Store operations\<close>

record store =
  dir :: string

definition has :: "store \<Rightarrow> world \<Rightarrow> string \<Rightarrow> bool" where
  "has st w p = existsSync w p"

definition readFileSync :: "world \<Rightarrow> string \<Rightarrow> error + content" where
  "readFileSync w p =
     (case files w p of
        None \<Rightarrow> Inl (IoError p)
      | Some (Dir m) \<Rightarrow> Inl (IoError p)
      | Some (File c m) \<Rightarrow> Inr c)"

text \<open>
  \<open>readDrv\<close> parses the file as JSON; a file that does not hold the text of a derivation
  file is reported as malformed.
\<close>

definition readDrv :: "store \<Rightarrow> world \<Rightarrow> string \<Rightarrow> error + drvFile" where
  "readDrv st w p =
     (case readFileSync w p of
        Inl e \<Rightarrow> Inl e
      | Inr (Bytes b) \<Rightarrow> Inl (SyntaxError p)
      | Inr (DrvText d) \<Rightarrow> Inr d)"

text \<open>
  \<open>atomicWrite\<close>: a temporary directory inside the store, the content written and made
  read-only there, renamed to the final path; the temporary directory is removed whether
  or not the rename succeeded.
\<close>

definition atomicWrite :: "store \<Rightarrow> string \<Rightarrow> content \<Rightarrow> world \<Rightarrow> (error + unit) \<times> world" where
  "atomicWrite st storePath c w =
     (let (tempDir, w1) = mkdtempSync (dir st @ ''/.tmp-'') w;
          tempPath = tempDir @ ''/content'';
          w2 = writeFileSync tempPath c w1;
          w3 = chmodSync tempPath 292 w2;
          (r, w4) = renameSync tempPath storePath w3
      in (r, rmSync tempDir w4))"

definition basename :: "string \<Rightarrow> string" where
  "basename p = rev (takeWhile (\<lambda>c. c \<noteq> CHR ''/'') (dropWhile (\<lambda>c. c = CHR ''/'') (rev p)))"

definition addSource :: "store \<Rightarrow> string \<Rightarrow> string option \<Rightarrow> world \<Rightarrow> (error + string) \<times> world" where
  "addSource st localPath nameOpt w =
     (case readFileSync w localPath of
        Inl e \<Rightarrow> (Inl e, w)
      | Inr c \<Rightarrow>
          (let contentHash = sha256Hex (contentBytes c);
               finalName = (case nameOpt of None \<Rightarrow> basename localPath | Some n \<Rightarrow> n);
               storePath = computeSourcePath contentHash (dir st) finalName
           in if \<not> has st w storePath
              then (case atomicWrite st storePath c w of
                      (Inl e, w1) \<Rightarrow> (Inl e, w1)
                    | (Inr u, w1) \<Rightarrow> (Inr storePath, w1))
              else (Inr storePath, w)))"

definition addWithPath :: "store \<Rightarrow> string \<Rightarrow> content \<Rightarrow> world \<Rightarrow> (error + unit) \<times> world" where
  "addWithPath st storePath c w =
     (if \<not> has st w storePath then atomicWrite st storePath c w else (Inr (), w))"

definition addDrv :: "store \<Rightarrow> string \<Rightarrow> drvFile \<Rightarrow> world \<Rightarrow> (error + unit) \<times> world" where
  "addDrv st drvPath drv w = addWithPath st drvPath (DrvText drv) w"

text \<open>
  \<open>makeImmutable\<close> walks the tree below a path: files become \<open>0o444\<close>, directories
  \<open>0o555\<close>. \<open>statSync\<close> fails on a missing path.
\<close>

definition makeImmutable :: "string \<Rightarrow> world \<Rightarrow> (error + unit) \<times> world" where
  "makeImmutable p w =
     (if files w p = None then (Inl (IoError p), w)
      else (Inr (), w\<lparr>files := (\<lambda>q.
              if under p q
              then map_option (\<lambda>n. case n of File c m \<Rightarrow> File c 292 | Dir m \<Rightarrow> Dir 365) (files w q)
              else files w q)\<rparr>))"

definition registerOutput :: "store \<Rightarrow> string \<Rightarrow> string \<Rightarrow> world \<Rightarrow> (error + unit) \<times> world" where
  "registerOutput st tempPath storePath w =
     (if has st w storePath then (Inr (), rmSync tempPath w)
      else (case makeImmutable tempPath w of
              (Inl e, w1) \<Rightarrow> (Inl e, w1)
            | (Inr u, w1) \<Rightarrow> renameSync tempPath storePath w1))"

section \<open>Instantiation (core/derivation.ts)\<close>

text \<open>
  Modelled from the spec: \<open>validateDerivation\<close>, which \<open>core/derivation.ts\<close> imports
  from \<open>core/types.ts\<close> and whose body is not in the sources at hand. By the
  specification it requires a name that is not empty and contains neither \<open>/\<close> nor NUL,
  a builder that is not empty and, for a fixed-output derivation (one whose output hash
  is present), the hash algorithm \<open>sha256\<close>. \<open>None\<close> is the normal return.
\<close>

definition validateDerivation :: "derivation \<Rightarrow> error option" where
  "validateDerivation drv =
     (if name drv = [] \<or> CHR ''/'' \<in> set (name drv) \<or> CHR 0x00 \<in> set (name drv)
      then Some ValidationError
      else if builder drv = [] then Some ValidationError
      else if outputHash drv \<noteq> None \<and> outputHashAlgo drv \<noteq> Some ''sha256''
      then Some ValidationError
      else None)"

type_synonym paths = "string \<times> string"
  \<comment> \<open>\<open>{ drvPath, outPath }\<close>\<close>

type_synonym instCache = "derivation \<rightharpoonup> paths"

text \<open>\<open>Map.prototype.set\<close>: a key already present keeps its place.\<close>

definition mapSet :: "'k \<Rightarrow> 'v \<Rightarrow> ('k \<times> 'v) list \<Rightarrow> ('k \<times> 'v) list" where
  "mapSet key v m =
     (if key \<in> fst ` set m then map (\<lambda>(k, w). if k = key then (k, v) else (k, w)) m
      else m @ [(key, v)])"

definition standardEnv ::
    "derivation \<Rightarrow> string \<Rightarrow> system \<Rightarrow> string \<Rightarrow> paths list \<Rightarrow> (string \<times> string) list" where
  "standardEnv drv outP sys storeDir results =
     foldl (\<lambda>obj (k, v). jsDefine k v obj) (orEmpty (env drv))
       ([(''out'', outP), (''name'', name drv), (''system'', systemString sys),
         (''PATH'', ''/path-not-set''), (''HOME'', ''/homeless-shelter''),
         (''NIX_STORE'', storeDir)]
        @ map (\<lambda>(i, r). (''input'' @ showNat i, snd r)) (enumerate 0 results))"

text \<open>The \<open>DrvFile\<close> literal that \<open>instantiate\<close> builds.\<close>

definition assembleDrvFile ::
    "derivation \<Rightarrow> string \<Rightarrow> system \<Rightarrow> string \<Rightarrow> (derivation \<times> paths) list \<Rightarrow> string
       \<Rightarrow> string list \<Rightarrow> drvFile" where
  "assembleDrvFile drv outP sys storeDir inputResults builderPath srcs =
     \<lparr>outPath = outP,
      inputDrvs = foldl (\<lambda>obj (i, r). jsSet (fst r) [''out''] obj) [] inputResults,
      inputSrcs = srcs,
      drvSystem = sys,
      drvBuilder = builderPath,
      drvArgs = orEmpty (args drv),
      drvEnv = standardEnv drv outP sys storeDir (map snd inputResults)\<rparr>"

text \<open>
  The part of \<open>instantiate\<close> after the inputs have been instantiated: hash, paths,
  sources, the builder, the \<open>DrvFile\<close> and its write.
\<close>

definition instantiateBody ::
    "process \<Rightarrow> store \<Rightarrow> derivation \<Rightarrow> (derivation \<times> paths) list \<Rightarrow> instCache \<times> world
       \<Rightarrow> (error + paths) \<times> (instCache \<times> world)" where
  "instantiateBody proc st drv inputResults s =
     (let (cache, w) = s;
          storeDir = dir st;
          sys = (case system drv of None \<Rightarrow> currentSystem proc | Some x \<Rightarrow> x);
          drvHash = fst (hashDerivationModulo proc drv storeDir Map.empty);
          outP = (if truthy (outputHash drv)
                  then computeFixedOutputPath (case outputHash drv of Some h \<Rightarrow> h | None \<Rightarrow> [])
                         (case outputHashMode drv of None \<Rightarrow> Flat | Some m \<Rightarrow> m) storeDir (name drv)
                  else computeOutputPath drvHash storeDir (name drv));
          drvPath = computeOutputPath drvHash storeDir (name drv) @ ''.drv'';
          (r1, w1) = (case src drv of
                        Some (PathSource p) \<Rightarrow>
                          (case addSource st p None w of
                             (Inl e, w') \<Rightarrow> (Inl e, w')
                           | (Inr srcPath, w') \<Rightarrow> (Inr [srcPath], w'))
                      | _ \<Rightarrow> (Inr [], w))
      in case r1 of
           Inl e \<Rightarrow> (Inl e, (cache, w1))
         | Inr inputSrcs1 \<Rightarrow>
             (let (r2, w2) =
                    (if prefix ''/'' (builder drv) then (Inr (builder drv, inputSrcs1), w1)
                     else if prefix storeDir (builder drv) then (Inr (builder drv, inputSrcs1), w1)
                     else (case addSource st (builder drv) (Some (name drv @ ''-builder'')) w1 of
                             (Inl e, w') \<Rightarrow> (Inl e, w')
                           | (Inr bp, w') \<Rightarrow> (Inr (bp, inputSrcs1 @ [bp]), w')))
              in case r2 of
                   Inl e \<Rightarrow> (Inl e, (cache, w2))
                 | Inr (builderPath, inputSrcs2) \<Rightarrow>
                     (let drvF = assembleDrvFile drv outP sys storeDir inputResults
                                   builderPath inputSrcs2
                      in case addDrv st drvPath drvF w2 of
                           (Inl e, w3) \<Rightarrow> (Inl e, (cache, w3))
                         | (Inr u, w3) \<Rightarrow>
                             (Inr (drvPath, outP), (cache(drv \<mapsto> (drvPath, outP)), w3)))))"

function instantiate ::
    "process \<Rightarrow> store \<Rightarrow> derivation \<Rightarrow> instCache \<times> world
       \<Rightarrow> (error + paths) \<times> (instCache \<times> world)"
  and instantiateInputs ::
    "process \<Rightarrow> store \<Rightarrow> derivation list \<Rightarrow> (derivation \<times> paths) list \<Rightarrow> instCache \<times> world
       \<Rightarrow> (error + (derivation \<times> paths) list) \<times> (instCache \<times> world)"
where
  "instantiate proc st (Derivation nm sy bl ar en ins sr oh oa om) s =
     (let drv = Derivation nm sy bl ar en ins sr oh oa om
      in case validateDerivation drv of
           Some e \<Rightarrow> (Inl e, s)
         | None \<Rightarrow>
             (case fst s drv of
                Some cached \<Rightarrow> (Inr cached, s)
              | None \<Rightarrow>
                  (case instantiateInputs proc st (orEmpty ins) [] s of
                     (Inl e, s1) \<Rightarrow> (Inl e, s1)
                   | (Inr inputResults, s1) \<Rightarrow> instantiateBody proc st drv inputResults s1)))"
| "instantiateInputs proc st [] inputResults s = (Inr inputResults, s)"
| "instantiateInputs proc st (input # rest) inputResults s =
     (case instantiate proc st input s of
        (Inl e, s1) \<Rightarrow> (Inl e, s1)
      | (Inr result, s1) \<Rightarrow> instantiateInputs proc st rest (mapSet input result inputResults) s1)"
  by pat_completeness auto
termination
  by (relation "measure (\<lambda>x. case x of
          Inl (proc, st, drv, s) \<Rightarrow> size drv
        | Inr (proc, st, ins, res, s) \<Rightarrow> size_list size ins)")
     (auto simp: orEmpty_def split: option.splits)

section \<open>Build execution (the realizer)\<close>

datatype sandboxKind = Docker | NoSandbox

text \<open>\<open>BuildConfig\<close>, and the \<open>Partial<BuildConfig>\<close> a caller passes.\<close>

record buildConfig =
  sandbox :: sandboxKind
  dockerImage :: "string option"
  network :: "bool option"
  verbose :: "bool option"

record partialConfig =
  pSandbox :: "sandboxKind option"
  pDockerImage :: "string option"
  pNetwork :: "bool option"
  pVerbose :: "bool option"

definition DEFAULT_BUILD_CONFIG :: buildConfig where
  "DEFAULT_BUILD_CONFIG =
     \<lparr>sandbox = Docker, dockerImage = Some ''debian:bookworm-slim'',
      network = Some False, verbose = Some False\<rparr>"

text \<open>\<open>{ ...DEFAULT_BUILD_CONFIG, ...config }\<close>.\<close>

definition mergeConfig :: "partialConfig \<Rightarrow> buildConfig" where
  "mergeConfig config =
     \<lparr>sandbox = (case pSandbox config of None \<Rightarrow> sandbox DEFAULT_BUILD_CONFIG | Some s \<Rightarrow> s),
      dockerImage = (case pDockerImage config of
                       None \<Rightarrow> dockerImage DEFAULT_BUILD_CONFIG | Some i \<Rightarrow> Some i),
      network = (case pNetwork config of None \<Rightarrow> network DEFAULT_BUILD_CONFIG | Some n \<Rightarrow> Some n),
      verbose = (case pVerbose config of None \<Rightarrow> verbose DEFAULT_BUILD_CONFIG | Some v \<Rightarrow> Some v)\<rparr>"

definition isTrue :: "bool option \<Rightarrow> bool" where
  "isTrue b = (case b of None \<Rightarrow> False | Some x \<Rightarrow> x)"

text \<open>
  A child process is outside the program: what the command does to the file system, and
  how it ends, is a parameter. It is given the command, its arguments, the environment
  and the working directory of \<open>spawn\<close>.
\<close>

datatype exit = Exited int string | SpawnFailed string

type_synonym spawner =
  "string \<Rightarrow> string list \<Rightarrow> (string \<times> string) list option \<Rightarrow> string option \<Rightarrow> world
     \<Rightarrow> exit \<times> world"

definition runCommand ::
    "spawner \<Rightarrow> string \<Rightarrow> string list \<Rightarrow> (string \<times> string) list option \<Rightarrow> string option
       \<Rightarrow> bool \<Rightarrow> world \<Rightarrow> (error + unit) \<times> world" where
  "runCommand spawn command arguments envOpt cwd verb w =
     (case spawn command arguments envOpt cwd w of
        (SpawnFailed msg, w1) \<Rightarrow>
          (Inl (BuildFailedError (''Failed to spawn '' @ command @ '': '' @ msg)), w1)
      | (Exited code err, w1) \<Rightarrow>
          (if code = 0 then (Inr (), w1)
           else (Inl (BuildFailedError (command @ '' exited with code '' @ showInt code @ eol
                        @ (if verb then [] else err))), w1)))"

text \<open>The argument list \<open>buildInDocker\<close> hands to \<open>docker\<close>.\<close>

definition dockerArgs :: "store \<Rightarrow> string \<Rightarrow> drvFile \<Rightarrow> buildConfig \<Rightarrow> string list" where
  "dockerArgs st outDir drv config =
     [''run'', ''--rm'']
     @ (if isTrue (network config) then [] else [''--network'', ''none''])
     @ [''-v'', dir st @ '':'' @ dir st @ '':ro'',
        ''-v'', outDir @ '':'' @ outPath drv @ '':rw'']
     @ concat (map (\<lambda>(k, v). [''-e'', k @ ''='' @ v]) (drvEnv drv))
     @ [''-w'', ''/build'',
        (case dockerImage config of None \<Rightarrow> ''undefined'' | Some i \<Rightarrow> i),
        drvBuilder drv]
     @ drvArgs drv"

definition buildInDocker ::
    "spawner \<Rightarrow> process \<Rightarrow> store \<Rightarrow> drvFile \<Rightarrow> buildConfig \<Rightarrow> world \<Rightarrow> (error + unit) \<times> world" where
  "buildInDocker spawn proc st drv config w =
     (let outP = outPath drv;
          outDir = tmpdir proc @ ''/'' @ ''tix-build-'' @ basename outP;
          w1 = mkdirSync outDir 511 w
      in case runCommand spawn ''docker'' (dockerArgs st outDir drv config) None None
                (isTrue (verbose config)) w1 of
           (Inl e, w2) \<Rightarrow> (Inl e, w2)
         | (Inr u, w2) \<Rightarrow> registerOutput st outDir outP w2)"

definition buildDirect ::
    "spawner \<Rightarrow> process \<Rightarrow> store \<Rightarrow> drvFile \<Rightarrow> buildConfig \<Rightarrow> world \<Rightarrow> (error + unit) \<times> world" where
  "buildDirect spawn proc st drv config w =
     (let outP = outPath drv;
          (buildDir, w1) = mkdtempSync (tmpdir proc @ ''/'' @ ''tix-build-'') w;
          w2 = mkdirSync outP 511 w1;
          env = foldl (\<lambda>obj (k, v). jsDefine k v obj) (drvEnv drv)
                  [(''TMPDIR'', buildDir), (''TEMPDIR'', buildDir),
                   (''TMP'', buildDir), (''TEMP'', buildDir)]
      in case runCommand spawn (drvBuilder drv) (drvArgs drv) (Some env) (Some buildDir)
                (isTrue (verbose config)) w2 of
           (Inl e, w3) \<Rightarrow> (Inl e, w3)
         | (Inr u, w3) \<Rightarrow> registerOutput st outP outP w3)"

text \<open>
  \<open>realize\<close> follows the \<open>inputDrvs\<close> of the derivation files it reads, so its recursion
  is bounded by fuel; \<open>None\<close> is fuel exhausted.
\<close>

fun realize ::
    "nat \<Rightarrow> spawner \<Rightarrow> process \<Rightarrow> store \<Rightarrow> string \<Rightarrow> partialConfig \<Rightarrow> world
       \<Rightarrow> ((error + string) \<times> world) option"
  and realizeInputs ::
    "nat \<Rightarrow> spawner \<Rightarrow> process \<Rightarrow> store \<Rightarrow> string list \<Rightarrow> partialConfig \<Rightarrow> world
       \<Rightarrow> ((error + unit) \<times> world) option"
where
  "realize 0 spawn proc st drvPath config w = None"
| "realize (Suc fuel) spawn proc st drvPath config w =
     (let opts = mergeConfig config
      in case readDrv st w drvPath of
           Inl e \<Rightarrow> Some (Inl e, w)
         | Inr drv \<Rightarrow>
             (let outP = outPath drv
              in if has st w outP then Some (Inr outP, w)
                 else
                   (case realizeInputs fuel spawn proc st (map fst (inputDrvs drv)) config w of
                      None \<Rightarrow> None
                    | Some (Inl e, w1) \<Rightarrow> Some (Inl e, w1)
                    | Some (Inr u, w1) \<Rightarrow>
                        (case (if sandbox opts = Docker
                               then buildInDocker spawn proc st drv opts w1
                               else buildDirect spawn proc st drv opts w1) of
                           (Inl e, w2) \<Rightarrow> Some (Inl e, w2)
                         | (Inr u, w2) \<Rightarrow>
                             (if \<not> has st w2 outP
                              then Some (Inl (MissingOutputError
                                     (''Build did not produce expected output: '' @ outP)), w2)
                              else Some (Inr outP, w2))))))"
| "realizeInputs fuel spawn proc st [] config w = Some (Inr (), w)"
| "realizeInputs fuel spawn proc st (inputDrvPath # rest) config w =
     (case realize fuel spawn proc st inputDrvPath config w of
        None \<Rightarrow> None
      | Some (Inl e, w1) \<Rightarrow> Some (Inl e, w1)
      | Some (Inr p, w1) \<Rightarrow> realizeInputs fuel spawn proc st rest config w1)"

section \<open>Dependency graph utilities (core/derivation.ts)\<close>

text \<open>
  \<open>topoSort\<close> tells derivations apart by identity, and a derivation whose \<open>inputs\<close> were
  assigned after its creation can reach itself. Here a derivation is a reference into a
  heap of objects, of which the traversal reads the name and the inputs. The traversal
  recurses along the inputs; its depth is bounded by fuel, and \<open>None\<close> is fuel exhausted.
  The \<open>cache\<close> parameter of the source is never used.
\<close>

type_synonym ref = nat



record sortState =
  result :: "ref list"
  visited :: "ref set"
  path :: "ref list"












section \<open>Example values\<close>

text \<open>
  A host, a store directory in an empty file system, and derivations in the style of the
  repository's tests (\<open>mkDrv\<close> in \<open>derivation.test.ts\<close>).
\<close>

definition hostLinux :: process where
  "hostLinux = \<lparr>arch = ''x64'', platform = ''linux'', tmpdir = ''/tmp''\<rparr>"

definition tixStore :: store where
  "tixStore = \<lparr>dir = ''/tix/store''\<rparr>"

definition emptyWorld :: world where
  "emptyWorld = \<lparr>files = Map.empty, tmpSuffix = (\<lambda>n. ''tmp'' @ showNat n), tmpDrawn = 0\<rparr>"

definition depA :: derivation where
  "depA = Derivation ''dep-a'' None ''/bin/sh'' None None None None None None None"

definition depB :: derivation where
  "depB = Derivation ''dep-b'' None ''/bin/sh'' None None None None None None None"

definition fetcher1 :: derivation where
  "fetcher1 = Derivation ''file'' None ''/bin/sh''
     (Some [''-c'', ''curl http://a.com/file > $out'']) None None None
     (Some (replicate 64 CHR ''a'')) (Some ''sha256'') (Some Flat)"

definition fetcher2 :: derivation where
  "fetcher2 = Derivation ''file'' None ''/bin/sh''
     (Some [''-c'', ''wget http://b.com/file -O $out'']) None None None
     (Some (replicate 64 CHR ''a'')) (Some ''sha256'') (Some Flat)"

text \<open>The same fetcher with a builder script that is not on the disk.\<close>

definition fetcher3 :: derivation where
  "fetcher3 = Derivation ''file'' None ''fetch.sh'' None None None None
     (Some (replicate 64 CHR ''a'')) (Some ''sha256'') (Some Flat)"

text \<open>Two derivations that declare the empty string as their output hash.\<close>

definition blank1 :: derivation where
  "blank1 = Derivation ''file'' (Some X86_64_linux) ''/bin/sh'' None None None None
     (Some []) (Some ''sha256'') (Some Flat)"

definition blank2 :: derivation where
  "blank2 = Derivation ''file'' (Some X86_64_linux) ''/bin/bash'' None None None None
     (Some []) (Some ''sha256'') (Some Flat)"








text \<open>
  The stored form of \<open>fetcher1\<close>, as \<open>instantiate\<close> assembles it in \<open>/tix/store\<close>.
\<close>

definition fetcher1File :: drvFile where
  "fetcher1File = assembleDrvFile fetcher1
     (computeFixedOutputPath (replicate 64 CHR ''a'') Flat ''/tix/store'' ''file'')
     X86_64_linux ''/tix/store'' [] ''/bin/sh'' []"

text \<open>What \<open>build\<close> of the user API passes to \<open>realize\<close>: \<open>{ verbose: true }\<close>.\<close>

definition apiConfig :: partialConfig where
  "apiConfig = \<lparr>pSandbox = None, pDockerImage = None, pNetwork = None, pVerbose = Some True\<rparr>"

definition noConfig :: partialConfig where
  "noConfig = \<lparr>pSandbox = None, pDockerImage = None, pNetwork = None, pVerbose = None\<rparr>"

definition directConfig :: partialConfig where
  "directConfig = \<lparr>pSandbox = Some NoSandbox, pDockerImage = None, pNetwork = None, pVerbose = None\<rparr>"

text \<open>
  A derivation whose builder does nothing, its paths in \<open>/tix/store\<close>, its stored form,
  and a store that holds the \<open>.drv\<close> file and no output yet.
\<close>

definition idle :: derivation where
  "idle = Derivation ''idle'' None ''/bin/true'' None None None None None None None"

definition idleOut :: string where
  "idleOut = ''/tix/store/mcs23ihs1xjrgg9ai78i7xcdn92lipaa-idle''"

definition idleFile :: drvFile where
  "idleFile = assembleDrvFile idle idleOut X86_64_linux ''/tix/store'' [] ''/bin/true'' []"

definition idleWorld :: world where
  "idleWorld = emptyWorld\<lparr>files := [idleOut @ ''.drv'' \<mapsto> File (DrvText idleFile) 292]\<rparr>"

text \<open>A builder that exits with code zero and touches nothing.\<close>

definition spawnNothing :: spawner where
  "spawnNothing command arguments envOpt cwd w = (Exited 0 [], w)"

text \<open>
  A builder that writes the file \<open>result\<close> into its output directory, the value of
  \<open>out\<close> in its environment, and exits with code zero.
\<close>

definition spawnWriter :: spawner where
  "spawnWriter command arguments envOpt cwd w =
     (case map_of (case envOpt of None \<Rightarrow> [] | Some e \<Rightarrow> e) ''out'' of
        None \<Rightarrow> (Exited 1 [], w)
      | Some out \<Rightarrow> (Exited 0 [], writeFileSync (out @ ''/result'') (Bytes [1, 2, 3]) w))"

text \<open>A store that already holds a built output with one file in it.\<close>

definition builtWorld :: world where
  "builtWorld = emptyWorld\<lparr>files :=
     [idleOut \<mapsto> Dir 365, idleOut @ ''/result'' \<mapsto> File (Bytes [1, 2, 3]) 292]\<rparr>"




section \<open>Verified properties\<close>

subsection \<open>Nix32 encoding\<close>

lemma fold_update_length:
  "length (fold (\<lambda>n cs. cs[g n := f n]) ns cs) = length cs"
  by (induction ns arbitrary: cs) simp_all

lemma fold_update_nth:
  assumes "inj_on g (set ns)" "n \<in> set ns" "g n < length cs"
  shows "fold (\<lambda>n cs. cs[g n := f n]) ns cs ! g n = f n"
  using assms
proof (induction ns arbitrary: cs rule: rev_induct)
  case Nil
  then show ?case by simp
next
  case (snoc x xs)
  show ?case
  proof (cases "n = x")
    case True
    then show ?thesis using snoc.prems by (simp add: fold_update_length)
  next
    case False
    then have "n \<in> set xs" using snoc.prems by simp
    moreover have "inj_on g (set xs)" using snoc.prems(1) by (simp add: inj_on_def)
    moreover have "g n \<noteq> g x" using snoc.prems(1) False \<open>n \<in> set xs\<close> by (auto simp: inj_on_def)
    ultimately show ?thesis using snoc.IH[of cs] snoc.prems(3) by simp
  qed
qed

lemma nix32Group_less: "unat (nix32Group r n) < 32"
proof -
  have a: "(x AND 0x1f) OR (y AND 0x1f) = (x OR y) AND (0x1f :: 32 word)" for x y
    by (simp add: bit.conj_disj_distrib2)
  have b: "unat (x AND (0x1f :: 32 word)) < 32" for x
    using word_and_le1[of x "0x1f"] by (simp add: word_le_nat_alt)
  show ?thesis
    unfolding nix32Group_def Let_def using b by (simp only: a split: if_splits) auto
qed

lemma ceil_8_5: "nat \<lceil>8 * real L / 5\<rceil> = (L * 8 + 4) div 5"
proof -
  have "\<lceil>8 * real L / 5\<rceil> = \<lceil>real_of_int (8 * int L) / real_of_int 5\<rceil>" by simp
  also have "\<dots> = - (- (8 * int L) div 5)" by (rule ceiling_divide_eq_div)
  also have "\<dots> = (8 * int L + 4) div 5" by presburger
  also have "\<dots> = int ((L * 8 + 4) div 5)" by (simp add: zdiv_int mult.commute)
  finally show ?thesis by simp
qed

lemma nix32Encode_closed:
  "nix32Encode B = map (\<lambda>p. NIX32_ALPHABET ! unat (nix32Group (rev B) ((length B * 8 + 4) div 5 - 1 - p)))
     [0..<(length B * 8 + 4) div 5]"
proof (cases "length B = 0")
  case True
  then show ?thesis by (simp add: nix32Encode_def)
next
  case False
  define len where "len = (length B * 8 + 4) div 5"
  define f where "f = (\<lambda>n. charAt NIX32_ALPHABET (unat (nix32Group (rev B) n)))"
  define chars where "chars = fold (\<lambda>n cs. cs[len - 1 - n := f n]) [0..<len] (replicate len None)"
  have lenc: "length chars = len" by (simp add: chars_def fold_update_length)
  have inj: "inj_on (\<lambda>n. len - 1 - n) (set [0..<len])" by (auto simp: inj_on_def)
  have nth: "chars ! p = f (len - 1 - p)" if "p < len" for p
  proof -
    have "chars ! (len - 1 - (len - 1 - p)) = f (len - 1 - p)"
      unfolding chars_def using that by (intro fold_update_nth[OF inj]) auto
    then show ?thesis using that by simp
  qed
  have fS: "f n = Some (NIX32_ALPHABET ! unat (nix32Group (rev B) n))" for n
    using nix32Group_less[of "rev B" n] by (simp add: f_def charAt_def NIX32_ALPHABET_def)
  have "chars = map (\<lambda>p. Some (NIX32_ALPHABET ! unat (nix32Group (rev B) (len - 1 - p)))) [0..<len]"
    by (rule nth_equalityI) (simp_all add: lenc nth fS)
  then have "joinChars chars = map (\<lambda>p. NIX32_ALPHABET ! unat (nix32Group (rev B) (len - 1 - p))) [0..<len]"
    by (simp add: joinChars_def map_concat comp_def concat_map_singleton)
  then show ?thesis using False
    by (simp add: nix32Encode_def Let_def chars_def f_def len_def)
qed


text \<open>
  Claim C7. For a buffer \<open>B\<close> of length \<open>L\<close>, \<open>nix32Encode\<close> returns exactly
  \<open>N = \<lceil>8 L / 5\<rceil>\<close> characters, all of the Nix32 alphabet; the character of the 5-bit
  group \<open>n\<close>, taken least-significant-bit first from the reversed buffer (with the second
  byte joined in when the group crosses a byte boundary), stands at position
  \<open>N - 1 - n\<close>; twenty zero bytes encode to thirty-two \<open>0\<close> and twenty \<open>0xff\<close> bytes to
  thirty-two \<open>z\<close>.
\<close>

theorem nix32Encode_layout:
  "length (nix32Encode B) = nat \<lceil>8 * real (length B) / 5\<rceil> \<and>
   set (nix32Encode B) \<subseteq> set NIX32_ALPHABET \<and>
   (\<forall>n < nat \<lceil>8 * real (length B) / 5\<rceil>.
      nix32Encode B ! (nat \<lceil>8 * real (length B) / 5\<rceil> - 1 - n) =
        NIX32_ALPHABET ! unat
          (let b = 5 * n; i = b div 8; j = b mod 8;
               c = drop_bit j (ucast (rev B ! i)) AND (0x1f :: 32 word)
           in if i + 1 < length B \<and> j > 3
              then c OR (push_bit (8 - j) (ucast (rev B ! (i + 1))) AND 0x1f)
              else c)) \<and>
   nix32Encode (replicate 20 0) = ''00000000000000000000000000000000'' \<and>
   nix32Encode (replicate 20 0xff) = ''zzzzzzzzzzzzzzzzzzzzzzzzzzzzzzzz''"
proof -
  define N where "N = (length B * 8 + 4) div 5"
  have N: "nat \<lceil>8 * real (length B) / 5\<rceil> = N" by (simp add: N_def ceil_8_5)
  have closed: "nix32Encode B = map (\<lambda>p. NIX32_ALPHABET ! unat (nix32Group (rev B) (N - 1 - p))) [0..<N]"
    unfolding N_def by (rule nix32Encode_closed)
  have len: "length (nix32Encode B) = N" by (simp add: closed)
  have alph: "set (nix32Encode B) \<subseteq> set NIX32_ALPHABET"
  proof -
    have "NIX32_ALPHABET ! unat (nix32Group (rev B) m) \<in> set NIX32_ALPHABET" for m
      using nix32Group_less[of "rev B" m] by (intro nth_mem) (simp add: NIX32_ALPHABET_def)
    then show ?thesis by (auto simp: closed)
  qed
  have pos: "nix32Encode B ! (N - 1 - n) =
        NIX32_ALPHABET ! unat
          (let b = 5 * n; i = b div 8; j = b mod 8;
               c = drop_bit j (ucast (rev B ! i)) AND (0x1f :: 32 word)
           in if i + 1 < length B \<and> j > 3
              then c OR (push_bit (8 - j) (ucast (rev B ! (i + 1))) AND 0x1f)
              else c)" if "n < N" for n
  proof -
    have i: "5 * n div 8 < length B" using that unfolding N_def by linarith
    have "nix32Encode B ! (N - 1 - n) = NIX32_ALPHABET ! unat (nix32Group (rev B) n)"
      using that by (simp add: closed)
    also have "nix32Group (rev B) n =
          (let b = 5 * n; i = b div 8; j = b mod 8;
               c = drop_bit j (ucast (rev B ! i)) AND (0x1f :: 32 word)
           in if i + 1 < length B \<and> j > 3
              then c OR (push_bit (8 - j) (ucast (rev B ! (i + 1))) AND 0x1f)
              else c)"
      using i by (simp add: nix32Group_def byteAt_def Let_def mult.commute)
    finally show ?thesis .
  qed
  have z: "nix32Encode (replicate 20 0) = ''00000000000000000000000000000000''"
    by code_simp
  have o: "nix32Encode (replicate 20 0xff) = ''zzzzzzzzzzzzzzzzzzzzzzzzzzzzzzzz''"
    by code_simp
  show ?thesis unfolding N using len alph pos z o by blast
qed


theorem nix32Encode_layout_witness:
  "(2::nat) < nat \<lceil>8 * real (length [0x12, 0xab, 0xff :: 8 word]) / 5\<rceil> \<and>
   nix32Encode [0x12, 0xab, 0xff] ! 2 = CHR ''a''"
proof -
  have h: "(2::nat) < nat \<lceil>8 * real (length [0x12, 0xab, 0xff :: 8 word]) / 5\<rceil>"
    by simp
  from nix32Encode_layout[of "[0x12, 0xab, 0xff]"]
  have "\<forall>n < nat \<lceil>8 * real (length [0x12, 0xab, 0xff :: 8 word]) / 5\<rceil>.
      nix32Encode [0x12, 0xab, 0xff] ! (nat \<lceil>8 * real (length [0x12, 0xab, 0xff :: 8 word]) / 5\<rceil> - 1 - n) =
        NIX32_ALPHABET ! unat
          (let b = 5 * n; i = b div 8; j = b mod 8;
               c = drop_bit j (ucast (rev [0x12, 0xab, 0xff :: 8 word] ! i)) AND (0x1f :: 32 word)
           in if i + 1 < length [0x12, 0xab, 0xff :: 8 word] \<and> j > 3
              then c OR (push_bit (8 - j) (ucast (rev [0x12, 0xab, 0xff :: 8 word] ! (i + 1))) AND 0x1f)
              else c)"
    by (elim conjE)
  from this[rule_format, OF h] show ?thesis
    using h by (simp add: NIX32_ALPHABET_def Let_def)
qed

subsection \<open>Objects and the deterministic serialisation\<close>

lemma map_of_update_key_at:
  "map_of (map (\<lambda>(k, w). if k = key then (k, v) else (k, w)) obj) x
     = (if x = key then map_option (\<lambda>_. v) (map_of obj key) else map_of obj x)"
  by (induction obj) auto

lemma map_of_update_key:
  assumes "key \<in> fst ` set obj"
  shows "map_of (map (\<lambda>(k, w). if k = key then (k, v) else (k, w)) obj) = (map_of obj)(key \<mapsto> v)"
proof (rule ext)
  fix x
  from assms obtain w where "map_of obj key = Some w"
    by (cases "map_of obj key") (auto simp: map_of_eq_None_iff)
  then show "map_of (map (\<lambda>(k, w). if k = key then (k, v) else (k, w)) obj) x
      = ((map_of obj)(key \<mapsto> v)) x"
    by (simp add: map_of_update_key_at)
qed

lemma map_of_insert_between:
  assumes "key \<notin> fst ` set obj"
  shows "map_of (takeWhile P obj @ [(key, v)] @ dropWhile P obj) = (map_of obj)(key \<mapsto> v)"
proof -
  have k: "key \<notin> dom (map_of (takeWhile P obj))"
    using assms by (auto simp: dom_map_of_conv_image_fst dest: set_takeWhileD)
  have "map_of (takeWhile P obj @ [(key, v)] @ dropWhile P obj)
      = (map_of (dropWhile P obj))(key \<mapsto> v) ++ map_of (takeWhile P obj)"
    by (simp add: map_of_append del: append_Cons)
  also have "\<dots> = (map_of (dropWhile P obj) ++ map_of (takeWhile P obj))(key \<mapsto> v)"
    using k by (rule map_add_upd_left)
  also have "map_of (dropWhile P obj) ++ map_of (takeWhile P obj)
      = map_of (takeWhile P obj @ dropWhile P obj)"
    by (simp only: map_of_append)
  also have "takeWhile P obj @ dropWhile P obj = obj"
    by (rule takeWhile_dropWhile_id)
  finally show ?thesis .
qed

lemma map_of_snoc_fresh:
  assumes "key \<notin> fst ` set obj"
  shows "map_of (obj @ [(key, v)]) = (map_of obj)(key \<mapsto> v)"
proof -
  have k: "key \<notin> dom (map_of obj)"
    using assms by (simp add: dom_map_of_conv_image_fst)
  have "map_of (obj @ [(key, v)]) = Map.empty(key \<mapsto> v) ++ map_of obj"
    by (simp add: map_of_append)
  also have "\<dots> = (Map.empty ++ map_of obj)(key \<mapsto> v)"
    using k by (rule map_add_upd_left)
  finally show ?thesis by simp
qed

lemma map_of_jsSet:
  "map_of (jsSet key v obj) = (if key = ''__proto__'' then map_of obj else (map_of obj)(key \<mapsto> v))"
proof -
  consider "key = ''__proto__''" | "key \<noteq> ''__proto__''" "key \<in> fst ` set obj"
    | "key \<noteq> ''__proto__''" "key \<notin> fst ` set obj" "isArrayIndex key"
    | "key \<noteq> ''__proto__''" "key \<notin> fst ` set obj" "\<not> isArrayIndex key"
    by blast
  then show ?thesis
  proof cases
    case 1
    then show ?thesis by (simp add: jsSet_def jsDefine_def)
  next
    case 2
    then show ?thesis using map_of_update_key[OF 2(2)] by (simp only: jsSet_def jsDefine_def if_True if_False)
  next
    case 3
    then show ?thesis using map_of_insert_between[OF 3(2)]
      by (simp only: jsSet_def jsDefine_def if_True if_False)
  next
    case 4
    then show ?thesis using map_of_snoc_fresh[OF 4(2)]
      by (simp only: jsSet_def jsDefine_def if_True if_False)
  qed
qed

lemma distinct_jsSet:
  assumes "distinct (map fst obj)"
  shows "distinct (map fst (jsSet key v obj))"
proof -
  have upd: "map fst (map (\<lambda>(k, w). if k = key then (k, v) else (k, w)) obj) = map fst obj"
    by (induction obj) auto
  have ins: "distinct (map fst (takeWhile P obj @ [(key, v)] @ dropWhile P obj))"
    if "key \<notin> fst ` set obj" for P
  proof -
    have "distinct (map fst (takeWhile P obj @ dropWhile P obj))" using assms by simp
    moreover have "key \<notin> fst ` set (takeWhile P obj)" "key \<notin> fst ` set (dropWhile P obj)"
      using that by (auto dest: set_takeWhileD set_dropWhileD)
    ultimately show ?thesis by (auto simp del: takeWhile_dropWhile_id)
  qed
  have app: "distinct (map fst (obj @ [(key, v)]))" if "key \<notin> fst ` set obj"
    using that assms by simp
  consider "key = ''__proto__''" | "key \<noteq> ''__proto__''" "key \<in> fst ` set obj"
    | "key \<noteq> ''__proto__''" "key \<notin> fst ` set obj" "isArrayIndex key"
    | "key \<noteq> ''__proto__''" "key \<notin> fst ` set obj" "\<not> isArrayIndex key"
    by blast
  then show ?thesis
  proof cases
    case 1
    then show ?thesis using assms by (simp add: jsSet_def jsDefine_def)
  next
    case 2
    then show ?thesis using assms by (simp only: jsSet_def jsDefine_def upd if_True if_False)
  next
    case 3
    then show ?thesis using ins[OF 3(2)] by (simp only: jsSet_def jsDefine_def if_True if_False)
  next
    case 4
    then show ?thesis using app[OF 4(2)] by (simp only: jsSet_def jsDefine_def if_True if_False)
  qed
qed

lemma sortedCopy_cong:
  assumes "distinct (map fst a)" "distinct (map fst b)" "map_of a = map_of b"
  shows "sortedCopy a = sortedCopy b"
proof -
  have "set (map fst a) = set (map fst b)"
    using assms(3) by (metis dom_map_of_conv_image_fst set_map)
  then have "sort (map fst a) = sort (map fst b)"
    using assms(1,2) by (intro sorted_distinct_set_unique) simp_all
  moreover have "jsGet a = jsGet b" using assms(3) by (simp add: jsGet_def fun_eq_iff)
  ultimately show ?thesis by (simp add: sortedCopy_def)
qed

lemma foldl_jsSet_props:
  "distinct (map fst acc) \<Longrightarrow>
   distinct (map fst (foldl (\<lambda>obj h. jsSet h w obj) acc hs)) \<and>
   map_of (foldl (\<lambda>obj h. jsSet h w obj) acc hs) =
     (\<lambda>k. if k \<in> set hs \<and> k \<noteq> ''__proto__'' then Some w else map_of acc k)"
proof (induction hs arbitrary: acc)
  case Nil
  then show ?case by simp
next
  case (Cons h hs)
  have d: "distinct (map fst (jsSet h w acc))" using Cons.prems by (rule distinct_jsSet)
  show ?case using Cons.IH[OF d] by (auto simp: map_of_jsSet fun_eq_iff)
qed

lemma sortedCopy_inputs_set:
  assumes "set hs = set hs'"
  shows "sortedCopy (foldl (\<lambda>obj h. jsSet h w obj) [] hs) = sortedCopy (foldl (\<lambda>obj h. jsSet h w obj) [] hs')"
  using foldl_jsSet_props[of "[]" w hs] foldl_jsSet_props[of "[]" w hs'] assms
  by (intro sortedCopy_cong) simp_all

lemma sortedCopy_plain_keys:
  assumes "distinct (map fst acc @ ks)"
    and "\<forall>k \<in> set ks. \<not> isArrayIndex k \<and> k \<noteq> ''__proto__''"
  shows "map fst (foldl (\<lambda>sorted key. jsSet key (f key) sorted) acc ks) = map fst acc @ ks"
  using assms
proof (induction ks arbitrary: acc)
  case Nil
  then show ?case by simp
next
  case (Cons k ks)
  have k: "k \<notin> fst ` set acc" "\<not> isArrayIndex k" "k \<noteq> ''__proto__''"
    using Cons.prems by auto
  then have s: "jsSet k (f k) acc = acc @ [(k, f k)]"
    by (simp add: jsSet_def jsDefine_def)
  have "distinct (map fst (acc @ [(k, f k)]) @ ks)" using Cons.prems(1) by simp
  from Cons.IH[OF this] Cons.prems(2) show ?case by (simp add: s)
qed

lemma sortedCopy_sorted_keys:
  assumes "distinct (map fst value)"
    and "\<forall>k \<in> fst ` set value. \<not> isArrayIndex k \<and> k \<noteq> ''__proto__''"
  shows "map fst (sortedCopy value) = sort (map fst value)"
  unfolding sortedCopy_def
  using sortedCopy_plain_keys[of "[]" "sort (map fst value)" "jsGet value"] assms
  by simp

text \<open>
  Claim C4. \<open>stableStringify\<close> is meant to emit the keys of every mapping in ascending
  lexicographic order. The replacer sorts the keys but assigns them to a fresh object,
  and an object enumerates its array-index keys first, in numeric order: the object with
  keys \<open>10\<close> and \<open>9\<close> is printed with \<open>9\<close> before \<open>10\<close>, although \<open>10\<close> is the
  smaller string. (For objects without array-index keys the emitted order is the sorted
  one, \<open>sortedCopy_sorted_keys\<close>.)
\<close>

theorem stableStringify_array_index_keys:
  \<open>stableStringify (JObj [(''10'', JNum 1), (''9'', JNum 2)]) = Some ''{"9":2,"10":1}'' \<and>
   ''10'' < ''9''\<close>
  by code_simp


subsection \<open>The derivation hash\<close>

lemma cacheSound_empty: "cacheSound proc Map.empty"
  by (simp add: cacheSound_def)

lemma cacheSound_update:
  "cacheSound proc cache \<Longrightarrow> cacheSound proc (cache(d \<mapsto> drvHash proc d))"
  by (simp add: cacheSound_def)

lemma hashDerivationModulo_unfold:
  "hashDerivationModulo proc drv storeDir cache =
     (if truthy (cache drv) then (case cache drv of Some h \<Rightarrow> (h, cache) | None \<Rightarrow> ([], cache))
      else if truthy (outputHash drv) then
        (sha256Hex (utf8 (fixedFingerprint (case outputHash drv of Some h \<Rightarrow> h | None \<Rightarrow> [])
                            (outputHashMode drv))),
         cache(drv \<mapsto> sha256Hex (utf8 (fixedFingerprint
                   (case outputHash drv of Some h \<Rightarrow> h | None \<Rightarrow> []) (outputHashMode drv)))))
      else
        (hashJson (toHash proc drv (fst (hashInputs proc (orEmpty (inputs drv)) storeDir cache []))),
         (snd (hashInputs proc (orEmpty (inputs drv)) storeDir cache []))
           (drv \<mapsto> hashJson (toHash proc drv
                   (fst (hashInputs proc (orEmpty (inputs drv)) storeDir cache []))))))"
  by (cases drv) (simp add: Let_def split_beta)

lemma drvHash_unfold:
  "drvHash proc drv =
     (if truthy (outputHash drv)
      then sha256Hex (utf8 (fixedFingerprint (case outputHash drv of Some h \<Rightarrow> h | None \<Rightarrow> [])
                              (outputHashMode drv)))
      else hashJson (toHash proc drv
             (foldl (\<lambda>obj h. jsSet h (JArr [JStr ''out'']) obj) []
                (map (drvHash proc) (orEmpty (inputs drv))))))"
  by (cases drv) simp

lemma hashDerivationModulo_sound:
  "cacheSound proc cache \<Longrightarrow>
     fst (hashDerivationModulo proc d storeDir cache) = drvHash proc d \<and>
     cacheSound proc (snd (hashDerivationModulo proc d storeDir cache))"
  "cacheSound proc cache \<Longrightarrow>
     fst (hashInputs proc ins storeDir cache obj)
       = foldl (\<lambda>obj h. jsSet h (JArr [JStr ''out'']) obj) obj (map (drvHash proc) ins) \<and>
     cacheSound proc (snd (hashInputs proc ins storeDir cache obj))"
proof (induction proc d storeDir cache and proc ins storeDir cache obj
       rule: hashDerivationModulo_hashInputs.induct)
  case (1 proc nm sy bl ar en ins sr oh oa om storeDir cache)
  define drv where "drv = Derivation nm sy bl ar en ins sr oh oa om"
  have sel: "outputHash drv = oh" "inputs drv = ins" by (simp_all add: drv_def)
  show ?case unfolding drv_def[symmetric]
  proof (cases "truthy (cache drv)")
    case True
    then obtain h where h: "cache drv = Some h" "h \<noteq> []"
      by (auto simp: truthy_def split: option.splits)
    then have "h = drvHash proc drv" using "1.prems" by (auto simp: cacheSound_def)
    then show "fst (hashDerivationModulo proc drv storeDir cache) = drvHash proc drv \<and>
        cacheSound proc (snd (hashDerivationModulo proc drv storeDir cache))"
      using True h "1.prems" by (simp add: hashDerivationModulo_unfold)
  next
    case nc: False
    show "fst (hashDerivationModulo proc drv storeDir cache) = drvHash proc drv \<and>
        cacheSound proc (snd (hashDerivationModulo proc drv storeDir cache))"
    proof (cases "truthy oh")
      case True
      then show ?thesis using nc cacheSound_update[OF "1.prems", of drv]
        by (simp add: hashDerivationModulo_unfold drvHash_unfold[of proc drv] sel)
    next
      case False
      have ih: "fst (hashInputs proc (orEmpty ins) storeDir cache [])
           = foldl (\<lambda>obj h. jsSet h (JArr [JStr ''out'']) obj) [] (map (drvHash proc) (orEmpty ins))"
        "cacheSound proc (snd (hashInputs proc (orEmpty ins) storeDir cache []))"
        using "1.IH"[OF refl refl _ False "1.prems"] nc
        by (simp_all add: drv_def)
      have hd: "drvHash proc drv = hashJson (toHash proc drv (fst (hashInputs proc (orEmpty ins) storeDir cache [])))"
        using False by (simp add: drvHash_unfold[of proc drv] sel ih(1))
      show ?thesis using nc False cacheSound_update[OF ih(2), of drv]
        by (simp add: hashDerivationModulo_unfold sel hd)
    qed
  qed
next
  case (2 proc storeDir cache inputHashes)
  then show ?case by simp
next
  case (3 proc input rest storeDir cache inputHashes)
  have a: "fst (hashDerivationModulo proc input storeDir cache) = drvHash proc input"
    "cacheSound proc (snd (hashDerivationModulo proc input storeDir cache))"
    using "3.IH"(1)[OF "3.prems"] by simp_all
  have b: "fst (hashInputs proc rest storeDir (snd (hashDerivationModulo proc input storeDir cache))
                 (jsSet (drvHash proc input) (JArr [JStr ''out'']) inputHashes))
         = foldl (\<lambda>obj h. jsSet h (JArr [JStr ''out'']) obj)
             (jsSet (drvHash proc input) (JArr [JStr ''out'']) inputHashes) (map (drvHash proc) rest)"
    "cacheSound proc (snd (hashInputs proc rest storeDir (snd (hashDerivationModulo proc input storeDir cache))
                 (jsSet (drvHash proc input) (JArr [JStr ''out'']) inputHashes)))"
    using "3.IH"(2)[OF refl prod.collapse a(2)] a(1) by simp_all
  show ?case using a b by (simp add: split_beta Let_def)
qed

lemma hashDerivationModulo_fresh:
  "fst (hashDerivationModulo proc d storeDir Map.empty) = drvHash proc d"
  using hashDerivationModulo_sound(1)[OF cacheSound_empty] by simp

lemma sortedCopy_toHash_fields:
  "sortedCopy [(''name'', a), (''system'', b), (''builder'', c), (''args'', d), (''env'', e),
               (''inputs'', f), (''outputs'', g), (''src'', h)]
   = [(''args'', d), (''builder'', c), (''env'', e), (''inputs'', f), (''name'', a),
      (''outputs'', g), (''src'', h), (''system'', b)]"
  by (simp add: sortedCopy_def jsSet_def jsDefine_def jsGet_def isArrayIndex_def isDigit_def)

lemma serialize_toHash_cong:
  assumes "sortedCopy ih = sortedCopy ih'"
    and "name d = name d'" "system d = system d'" "builder d = builder d'" "args d = args d'"
    and "env d = env d'" "src d = src d'"
  shows "serializeProperty (toHash proc d ih) = serializeProperty (toHash proc d' ih')"
  using assms by (simp add: toHash_def sortedCopy_toHash_fields)

text \<open>
  Claim C2. The hash of a derivation does not change when its list of inputs is replaced
  by a list with the same elements: two lists that are permutations of each other, or
  that differ by repeated occurrences of an input, have the same set of elements.
\<close>

theorem hashDerivationModulo_inputs_as_set:
  assumes "set (orEmpty ins) = set (orEmpty ins')"
  shows "fst (hashDerivationModulo proc (Derivation nm sy bl ar en ins sr oh oa om) storeDir Map.empty)
       = fst (hashDerivationModulo proc (Derivation nm sy bl ar en ins' sr oh oa om) storeDir Map.empty)"
proof -
  have "set (map (drvHash proc) (orEmpty ins)) = set (map (drvHash proc) (orEmpty ins'))"
    using assms by simp
  then have "sortedCopy (foldl (\<lambda>obj h. jsSet h (JArr [JStr ''out'']) obj) []
                 (map (drvHash proc) (orEmpty ins)))
           = sortedCopy (foldl (\<lambda>obj h. jsSet h (JArr [JStr ''out'']) obj) []
                 (map (drvHash proc) (orEmpty ins')))"
    by (rule sortedCopy_inputs_set)
  then have "serializeProperty (toHash proc (Derivation nm sy bl ar en ins sr oh oa om)
                 (foldl (\<lambda>obj h. jsSet h (JArr [JStr ''out'']) obj) []
                    (map (drvHash proc) (orEmpty ins))))
           = serializeProperty (toHash proc (Derivation nm sy bl ar en ins' sr oh oa om)
                 (foldl (\<lambda>obj h. jsSet h (JArr [JStr ''out'']) obj) []
                    (map (drvHash proc) (orEmpty ins'))))"
    by (rule serialize_toHash_cong) simp_all
  then have "drvHash proc (Derivation nm sy bl ar en ins sr oh oa om)
           = drvHash proc (Derivation nm sy bl ar en ins' sr oh oa om)"
    by (simp add: hashJson_def stableStringify_def del: serializeProperty.simps)
  then show ?thesis by (simp only: hashDerivationModulo_fresh)
qed

theorem hashDerivationModulo_inputs_as_set_witness:
  "set (orEmpty (Some [depA, depB])) = set (orEmpty (Some [depB, depA, depB])) \<and>
   fst (hashDerivationModulo hostLinux
          (Derivation ''test'' None ''/bin/sh'' None None (Some [depA, depB]) None None None None)
          ''/tix/store'' Map.empty)
   = fst (hashDerivationModulo hostLinux
          (Derivation ''test'' None ''/bin/sh'' None None (Some [depB, depA, depB]) None None None None)
          ''/tix/store'' Map.empty)"
proof -
  have h: "set (orEmpty (Some [depA, depB])) = set (orEmpty (Some [depB, depA, depB]))"
    by (auto simp: orEmpty_def)
  show ?thesis using h hashDerivationModulo_inputs_as_set[OF h] by blast
qed

subsection \<open>The text that is hashed\<close>




































subsection \<open>Instantiation\<close>

lemma instantiate_unfold:
  "instantiate proc st drv s =
     (case validateDerivation drv of
        Some e \<Rightarrow> (Inl e, s)
      | None \<Rightarrow>
          (case fst s drv of
             Some cached \<Rightarrow> (Inr cached, s)
           | None \<Rightarrow>
               (case instantiateInputs proc st (orEmpty (inputs drv)) [] s of
                  (Inl e, s1) \<Rightarrow> (Inl e, s1)
                | (Inr inputResults, s1) \<Rightarrow> instantiateBody proc st drv inputResults s1)))"
  by (cases drv, hypsubst_thin, simp add: Let_def cong del: option.case_cong_weak)

lemma instantiateBody_paths:
  assumes "instantiateBody proc st drv inputResults s = (Inr (dp, op), s')"
  shows "op = (if truthy (outputHash drv)
               then computeFixedOutputPath (case outputHash drv of Some h \<Rightarrow> h | None \<Rightarrow> [])
                      (case outputHashMode drv of None \<Rightarrow> Flat | Some m \<Rightarrow> m) (dir st) (name drv)
               else computeOutputPath (drvHash proc drv) (dir st) (name drv))"
    and "dp = computeOutputPath (drvHash proc drv) (dir st) (name drv) @ ''.drv''"
  using assms
  by (auto simp: instantiateBody_def Let_def hashDerivationModulo_fresh
           split: prod.splits sum.splits if_splits option.splits source.splits)

lemma instantiate_paths:
  assumes "instantiate proc st drv s = (Inr (dp, op), s')" and "fst s drv = None"
  shows "op = (if truthy (outputHash drv)
               then computeFixedOutputPath (case outputHash drv of Some h \<Rightarrow> h | None \<Rightarrow> [])
                      (case outputHashMode drv of None \<Rightarrow> Flat | Some m \<Rightarrow> m) (dir st) (name drv)
               else computeOutputPath (drvHash proc drv) (dir st) (name drv))"
    and "dp = computeOutputPath (drvHash proc drv) (dir st) (name drv) @ ''.drv''"
  using assms instantiateBody_paths[of proc st drv _ _ dp op s']
  by (auto simp: instantiate_unfold split: option.splits prod.splits sum.splits)

lemma addDrv_ok: "fst (addDrv st p d w) = Inr ()"
  by (simp add: addDrv_def addWithPath_def atomicWrite_def mkdtempSync_def writeFileSync_def
        chmodSync_def renameSync_def Let_def split_beta)

lemma addDrv_case:
  "(case addDrv st p d w of (Inl e, w3) \<Rightarrow> A e w3 | (Inr u, w3) \<Rightarrow> B u w3)
     = B () (snd (addDrv st p d w))"
  using addDrv_ok[of st p d w] by (cases "addDrv st p d w") auto

lemma instantiate_leaf:
  assumes "validateDerivation drv = None" "orEmpty (inputs drv) = []" "src drv = None"
    and "prefix ''/'' (builder drv)"
  shows "fst (instantiate proc st drv (Map.empty, w))
     = Inr (computeOutputPath (drvHash proc drv) (dir st) (name drv) @ ''.drv'',
            (if truthy (outputHash drv)
             then computeFixedOutputPath (case outputHash drv of Some h \<Rightarrow> h | None \<Rightarrow> [])
                    (case outputHashMode drv of None \<Rightarrow> Flat | Some m \<Rightarrow> m) (dir st) (name drv)
             else computeOutputPath (drvHash proc drv) (dir st) (name drv)))"
  using assms
  by (simp add: instantiate_unfold instantiateBody_def Let_def hashDerivationModulo_fresh
        addDrv_case)

lemma blank1_hash:
  "drvHash hostLinux blank1 = ''7f16ba26f81c822acdf34529d479843fec1810ae0bb5cd57d1011114be5470eb''"
  by code_simp

lemma blank2_hash:
  "drvHash hostLinux blank2 = ''70b3c2c55e9c4326c92414c24d76b63be9712f0ff7ccca32c8f44a3afb683d99''"
  by code_simp

text \<open>
  Claim C1, as amended. Two derivations with the same name whose output hash is present
  and not the empty string, and whose output hash and hash mode are identical, have the
  same derivation hash, which is the SHA-256 of the fixed-output fingerprint of the
  declared hash and mode alone; and whenever \<open>instantiate\<close> returns for both in the same
  store, it returns the same output path. Builder, arguments, environment, inputs and
  source are arbitrary.
\<close>

theorem fixed_output_isolation:
  assumes "truthy (outputHash d1)"
    and "name d1 = name d2"
    and "outputHash d1 = outputHash d2"
    and "outputHashMode d1 = outputHashMode d2"
  shows "fst (hashDerivationModulo proc d1 storeDir Map.empty)
           = sha256Hex (utf8 (fixedFingerprint (case outputHash d1 of Some h \<Rightarrow> h | None \<Rightarrow> [])
                                (outputHashMode d1))) \<and>
         fst (hashDerivationModulo proc d1 storeDir Map.empty)
           = fst (hashDerivationModulo proc d2 storeDir Map.empty) \<and>
         (fst (instantiate proc st d1 (Map.empty, w1)) = Inr (dp1, op1) \<longrightarrow>
          fst (instantiate proc st d2 (Map.empty, w2)) = Inr (dp2, op2) \<longrightarrow>
          op1 = op2)"
proof -
  have t2: "truthy (outputHash d2)" using assms by simp
  have h1: "drvHash proc d1 = sha256Hex (utf8 (fixedFingerprint
               (case outputHash d1 of Some h \<Rightarrow> h | None \<Rightarrow> []) (outputHashMode d1)))"
    using assms(1) by (simp add: drvHash_unfold[of proc d1])
  have h2: "drvHash proc d2 = sha256Hex (utf8 (fixedFingerprint
               (case outputHash d1 of Some h \<Rightarrow> h | None \<Rightarrow> []) (outputHashMode d1)))"
    using t2 assms by (simp add: drvHash_unfold[of proc d2])
  have p: "op1 = op2"
    if a: "fst (instantiate proc st d1 (Map.empty, w1)) = Inr (dp1, op1)"
    and b: "fst (instantiate proc st d2 (Map.empty, w2)) = Inr (dp2, op2)"
  proof -
    have a': "instantiate proc st d1 (Map.empty, w1)
                = (Inr (dp1, op1), snd (instantiate proc st d1 (Map.empty, w1)))"
      using a by (metis prod.collapse)
    have b': "instantiate proc st d2 (Map.empty, w2)
                = (Inr (dp2, op2), snd (instantiate proc st d2 (Map.empty, w2)))"
      using b by (metis prod.collapse)
    show ?thesis
      using instantiate_paths(1)[OF a'] instantiate_paths(1)[OF b'] assms t2 by simp
  qed
  show ?thesis using h1 h2 p by (simp add: hashDerivationModulo_fresh)
qed

theorem fixed_output_isolation_witness:
  "truthy (outputHash fetcher1) \<and> name fetcher1 = name fetcher2 \<and>
   outputHash fetcher1 = outputHash fetcher2 \<and>
   outputHashMode fetcher1 = outputHashMode fetcher2 \<and>
   builder fetcher1 = builder fetcher2 \<and> args fetcher1 \<noteq> args fetcher2 \<and>
   fst (instantiate hostLinux tixStore fetcher1 (Map.empty, emptyWorld))
     = Inr (computeOutputPath (drvHash hostLinux fetcher1) ''/tix/store'' ''file'' @ ''.drv'',
            computeFixedOutputPath (replicate 64 CHR ''a'') Flat ''/tix/store'' ''file'') \<and>
   fst (instantiate hostLinux tixStore fetcher2 (Map.empty, emptyWorld))
     = Inr (computeOutputPath (drvHash hostLinux fetcher2) ''/tix/store'' ''file'' @ ''.drv'',
            computeFixedOutputPath (replicate 64 CHR ''a'') Flat ''/tix/store'' ''file'') \<and>
   fst (hashDerivationModulo hostLinux fetcher1 ''/tix/store'' Map.empty)
     = fst (hashDerivationModulo hostLinux fetcher2 ''/tix/store'' Map.empty)"
proof -
  have h: "truthy (outputHash fetcher1)" "name fetcher1 = name fetcher2"
    "outputHash fetcher1 = outputHash fetcher2" "outputHashMode fetcher1 = outputHashMode fetcher2"
    by (simp_all add: fetcher1_def fetcher2_def truthy_def)
  have d: "builder fetcher1 = builder fetcher2" "args fetcher1 \<noteq> args fetcher2"
    by (simp_all add: fetcher1_def fetcher2_def)
  have i1: "fst (instantiate hostLinux tixStore fetcher1 (Map.empty, emptyWorld))
     = Inr (computeOutputPath (drvHash hostLinux fetcher1) ''/tix/store'' ''file'' @ ''.drv'',
            computeFixedOutputPath (replicate 64 CHR ''a'') Flat ''/tix/store'' ''file'')"
    using instantiate_leaf[of fetcher1 hostLinux tixStore emptyWorld]
    by (simp add: fetcher1_def validateDerivation_def orEmpty_def truthy_def tixStore_def)
  have i2: "fst (instantiate hostLinux tixStore fetcher2 (Map.empty, emptyWorld))
     = Inr (computeOutputPath (drvHash hostLinux fetcher2) ''/tix/store'' ''file'' @ ''.drv'',
            computeFixedOutputPath (replicate 64 CHR ''a'') Flat ''/tix/store'' ''file'')"
    using instantiate_leaf[of fetcher2 hostLinux tixStore emptyWorld]
    by (simp add: fetcher2_def validateDerivation_def orEmpty_def truthy_def tixStore_def)
  from fixed_output_isolation[OF h, of hostLinux "''/tix/store''"]
  have "fst (hashDerivationModulo hostLinux fetcher1 ''/tix/store'' Map.empty)
     = fst (hashDerivationModulo hostLinux fetcher2 ''/tix/store'' Map.empty)"
    by blast
  then show ?thesis using h d i1 i2 by blast
qed

text \<open>
  The claim as stated, for every derivation whose output hash is present, fails when the
  declared hash is the empty string: \<open>blank1\<close> and \<open>blank2\<close> agree on name, output hash,
  algorithm and mode and differ in their builder, and their hashes differ. And
  \<open>instantiate\<close> need not return for both: with a builder script that is not on the disk
  it fails where it returns for the fetcher with an absolute builder.
\<close>

theorem fixed_output_blank_counterexample:
  "outputHash blank1 = Some [] \<and> outputHash blank2 = Some [] \<and>
   name blank1 = name blank2 \<and>
   outputHash blank1 = outputHash blank2 \<and>
   outputHashAlgo blank1 = outputHashAlgo blank2 \<and>
   outputHashMode blank1 = outputHashMode blank2 \<and>
   fst (hashDerivationModulo hostLinux blank1 ''/tix/store'' Map.empty)
     = ''7f16ba26f81c822acdf34529d479843fec1810ae0bb5cd57d1011114be5470eb'' \<and>
   fst (hashDerivationModulo hostLinux blank2 ''/tix/store'' Map.empty)
     = ''70b3c2c55e9c4326c92414c24d76b63be9712f0ff7ccca32c8f44a3afb683d99'' \<and>
   fst (hashDerivationModulo hostLinux blank1 ''/tix/store'' Map.empty)
     \<noteq> fst (hashDerivationModulo hostLinux blank2 ''/tix/store'' Map.empty) \<and>
   name fetcher1 = name fetcher3 \<and>
   outputHash fetcher1 = outputHash fetcher3 \<and>
   outputHashAlgo fetcher1 = outputHashAlgo fetcher3 \<and>
   outputHashMode fetcher1 = outputHashMode fetcher3 \<and>
   fst (instantiate hostLinux tixStore fetcher1 (Map.empty, emptyWorld))
     = Inr (computeOutputPath (drvHash hostLinux fetcher1) ''/tix/store'' ''file'' @ ''.drv'',
            computeFixedOutputPath (replicate 64 CHR ''a'') Flat ''/tix/store'' ''file'') \<and>
   fst (instantiate hostLinux tixStore fetcher3 (Map.empty, emptyWorld))
     = Inl (IoError ''fetch.sh'')"
proof -
  have "outputHash blank1 = Some []" "outputHash blank2 = Some []" "name blank1 = name blank2"
    "outputHashAlgo blank1 = outputHashAlgo blank2" "outputHashMode blank1 = outputHashMode blank2"
    by (simp_all add: blank1_def blank2_def)
  moreover have "name fetcher1 = name fetcher3" "outputHash fetcher1 = outputHash fetcher3"
    "outputHashAlgo fetcher1 = outputHashAlgo fetcher3"
    "outputHashMode fetcher1 = outputHashMode fetcher3"
    by (simp_all add: fetcher1_def fetcher3_def)
  moreover have "fst (instantiate hostLinux tixStore fetcher1 (Map.empty, emptyWorld))
     = Inr (computeOutputPath (drvHash hostLinux fetcher1) ''/tix/store'' ''file'' @ ''.drv'',
            computeFixedOutputPath (replicate 64 CHR ''a'') Flat ''/tix/store'' ''file'')"
    using instantiate_leaf[of fetcher1 hostLinux tixStore emptyWorld]
    by (simp add: fetcher1_def validateDerivation_def orEmpty_def truthy_def tixStore_def)
  moreover have "fst (instantiate hostLinux tixStore fetcher3 (Map.empty, emptyWorld))
     = Inl (IoError ''fetch.sh'')"
    by (simp add: instantiate_unfold instantiateBody_def fetcher3_def validateDerivation_def
          orEmpty_def tixStore_def emptyWorld_def addSource_def readFileSync_def Let_def)
  ultimately show ?thesis
    by (simp add: hashDerivationModulo_fresh blank1_hash blank2_hash)
qed

text \<open>
  Claim C9. \<open>instantiate\<close> validates its derivation first: with an empty name, a name
  containing \<open>/\<close> or NUL, an empty builder, or an output hash declared with an algorithm
  other than \<open>sha256\<close>, it fails with \<open>ValidationError\<close> and leaves the memo table and
  the file system as they were, so no \<open>.drv\<close> file is written.
\<close>

theorem instantiate_validates_first:
  assumes "name d = [] \<or> CHR ''/'' \<in> set (name d) \<or> CHR 0x00 \<in> set (name d) \<or>
           builder d = [] \<or>
           (outputHash d \<noteq> None \<and> (\<exists>a. outputHashAlgo d = Some a \<and> a \<noteq> ''sha256''))"
  shows "instantiate proc st d (cache, w) = (Inl ValidationError, (cache, w))"
proof -
  have "validateDerivation d = Some ValidationError"
    using assms by (auto simp: validateDerivation_def)
  then show ?thesis by (simp add: instantiate_unfold)
qed

theorem instantiate_validates_first_witness:
  "CHR ''/'' \<in> set (name (Derivation ''foo/bar'' None ''/bin/sh'' None None None None None None None)) \<and>
   instantiate hostLinux tixStore
     (Derivation ''foo/bar'' None ''/bin/sh'' None None None None None None None)
     (Map.empty, emptyWorld) = (Inl ValidationError, (Map.empty, emptyWorld))"
proof -
  have h: "CHR ''/'' \<in> set (name (Derivation ''foo/bar'' None ''/bin/sh'' None None None None None None None))"
    by simp
  show ?thesis
    using h instantiate_validates_first[of "Derivation ''foo/bar'' None ''/bin/sh'' None None None None None None None"
        hostLinux tixStore Map.empty emptyWorld]
    by blast
qed

subsection \<open>A declared output hash that is the empty string\<close>




























subsection \<open>The store\<close>

lemmas world_simps =
  has_def existsSync_def readDrv_def readFileSync_def registerOutput_def makeImmutable_def
  renameSync_def rmSync_def mkdirSync_def mkdtempSync_def writeFileSync_def under_def
  runCommand_def buildInDocker_def buildDirect_def mergeConfig_def DEFAULT_BUILD_CONFIG_def
  isTrue_def basename_def Let_def

lemma addWithPath_existing:
  "has st w p \<Longrightarrow> addWithPath st p c w = (Inr (), w)"
  by (simp add: addWithPath_def)

lemma addDrv_existing:
  "has st w p \<Longrightarrow> addDrv st p d w = (Inr (), w)"
  by (simp add: addDrv_def addWithPath_existing)

lemma addSource_existing:
  assumes "fst (addSource st localPath nameOpt w) = Inr p" and "has st w p"
  shows "snd (addSource st localPath nameOpt w) = w"
  using assms
  by (auto simp: addSource_def Let_def split: sum.splits prod.splits if_splits)

lemma registerOutput_existing:
  assumes "has st w p" and "\<not> under t p"
  shows "fst (registerOutput st t p w) = Inr () \<and> files (snd (registerOutput st t p w)) p = files w p"
  using assms by (simp add: registerOutput_def rmSync_def)

text \<open>
  Claim C8. An entry present at its final path is to survive every later store
  operation that targets it. \<open>addSource\<close>, \<open>addWithPath\<close>, \<open>addDrv\<close> and a
  \<open>registerOutput\<close> from a temporary path elsewhere leave it as it is (the four lemmas
  above). \<open>buildDirect\<close> however calls \<open>registerOutput(outPath, outPath)\<close>: the path
  exists, so the call removes its "temporary" path, which is the entry itself with
  everything in it.
\<close>

theorem registerOutput_same_path_removes_entry:
  "has tixStore builtWorld idleOut \<and>
   files builtWorld (idleOut @ ''/result'') = Some (File (Bytes [1, 2, 3]) 292) \<and>
   fst (registerOutput tixStore idleOut idleOut builtWorld) = Inr () \<and>
   files (snd (registerOutput tixStore idleOut idleOut builtWorld)) idleOut = None \<and>
   files (snd (registerOutput tixStore idleOut idleOut builtWorld)) (idleOut @ ''/result'') = None"
  by (simp add: world_simps builtWorld_def idleOut_def emptyWorld_def)

subsection \<open>The realizer\<close>

text \<open>
  The example store is what \<open>instantiate\<close> leaves behind for \<open>idle\<close>: the paths and the
  content of the \<open>.drv\<close> file are the ones computed by the code.
\<close>

lemma idle_instantiated:
  "(case instantiate hostLinux tixStore idle (Map.empty, emptyWorld) of
      (r, (c, w)) \<Rightarrow> r = Inr (idleOut @ ''.drv'', idleOut) \<and>
                      files w (idleOut @ ''.drv'') = Some (File (DrvText idleFile) 292) \<and>
                      files w idleOut = None)"
  by code_simp

lemma realize_direct_discards_output:
  "map_option fst (realize 1 spawnWriter hostLinux tixStore (idleOut @ ''.drv'') directConfig idleWorld)
     = Some (Inl (MissingOutputError (''Build did not produce expected output: '' @ idleOut))) \<and>
   map_option (\<lambda>r. files (snd r) (idleOut @ ''/result''))
      (realize 1 spawnWriter hostLinux tixStore (idleOut @ ''.drv'') directConfig idleWorld)
     = Some None"
  by (simp add: world_simps idleWorld_def idleFile_def idleOut_def assembleDrvFile_def
        emptyWorld_def tixStore_def hostLinux_def directConfig_def spawnWriter_def
        standardEnv_def jsDefine_def isArrayIndex_def isDigit_def orEmpty_def idle_def)

lemma realize_direct_missing_output:
  "map_option fst (realize 1 spawnNothing hostLinux tixStore (idleOut @ ''.drv'') directConfig idleWorld)
     = Some (Inl (MissingOutputError (''Build did not produce expected output: '' @ idleOut)))"
  by (simp add: world_simps idleWorld_def idleFile_def idleOut_def assembleDrvFile_def
        emptyWorld_def tixStore_def hostLinux_def directConfig_def spawnNothing_def)

lemma dockerArgs_network_none:
  "\<not> isTrue (network config) \<Longrightarrow>
   take 4 (dockerArgs st outDir drv config) = [''run'', ''--rm'', ''--network'', ''none'']"
  by (simp add: dockerArgs_def)

text \<open>
  Claim C5. A fixed-output derivation is to be built with network access whatever the
  configuration says. \<open>buildInDocker\<close> decides on \<open>config.network\<close> alone, and the stored
  derivation does not even record whether it is fixed-output: with the configuration of
  the user API (\<open>{ verbose: true }\<close>) or the default one, the container of the
  fixed-output derivation \<open>fetcher1\<close> is started with \<open>--network none\<close>.
\<close>

theorem docker_fixed_output_network_disabled:
  "outPath fetcher1File = computeFixedOutputPath (replicate 64 CHR ''a'') Flat ''/tix/store'' ''file'' \<and>
   take 4 (dockerArgs tixStore (''/tmp/tix-build-'' @ basename (outPath fetcher1File)) fetcher1File
             (mergeConfig apiConfig))
     = [''run'', ''--rm'', ''--network'', ''none''] \<and>
   take 4 (dockerArgs tixStore (''/tmp/tix-build-'' @ basename (outPath fetcher1File)) fetcher1File
             (mergeConfig noConfig))
     = [''run'', ''--rm'', ''--network'', ''none'']"
  by (simp add: dockerArgs_def mergeConfig_def apiConfig_def noConfig_def DEFAULT_BUILD_CONFIG_def
        isTrue_def fetcher1File_def assembleDrvFile_def)

text \<open>
  Claim C6. A builder that exits with code zero without producing its output is to make
  \<open>realize\<close> fail with \<open>MissingOutputError\<close>. Under the container sandbox the host
  directory mounted as the output is created before the build and registered after it:
  with a builder that creates nothing, \<open>realize\<close> returns the output path, now an empty
  read-only directory in the store. (Without a sandbox the same builder does make
  \<open>realize\<close> fail, \<open>realize_direct_missing_output\<close>.)
\<close>

theorem realize_docker_registers_empty_output:
  "readDrv tixStore idleWorld (idleOut @ ''.drv'') = Inr idleFile \<and>
   \<not> has tixStore idleWorld idleOut \<and>
   map_option fst (realize 1 spawnNothing hostLinux tixStore (idleOut @ ''.drv'') noConfig idleWorld)
     = Some (Inr idleOut) \<and>
   map_option (\<lambda>r. files (snd r) idleOut)
      (realize 1 spawnNothing hostLinux tixStore (idleOut @ ''.drv'') noConfig idleWorld)
     = Some (Some (Dir 365)) \<and>
   map_option (\<lambda>r. files (snd r) (idleOut @ ''/result''))
      (realize 1 spawnNothing hostLinux tixStore (idleOut @ ''.drv'') noConfig idleWorld)
     = Some None"
  by (simp add: world_simps idleWorld_def idleFile_def idleOut_def assembleDrvFile_def
        emptyWorld_def tixStore_def hostLinux_def noConfig_def spawnNothing_def dockerArgs_def)
subsection \<open>Topological sorting\<close>






















end
